theory Spec2Isabelle
  imports Complex_Main "HOL-Library.Word"
begin

unbundle bit_operations_syntax

section \<open>JavaScript strings and byte buffers\<close>

text \<open>
  A JavaScript string is a sequence of UTF-16 code units; \<open>charCodeAt\<close> reads one of them
  as a number between 0 and 65535. A \<open>Uint8Array\<close> or \<open>ArrayBuffer\<close> is a sequence of bytes.
  String literals of the source are written with \<open>lit\<close>, which maps each ASCII character to
  its code unit.
\<close>

type_synonym code_unit = "16 word"
type_synonym jsstring = "code_unit list"
type_synonym byte = "8 word"
type_synonym bytes = "byte list"

definition lit :: "string \<Rightarrow> jsstring" where
  "lit s = map (\<lambda>c. of_char c) s"

text \<open>
  \<open>s.charCodeAt(i)\<close> is \<open>NaN\<close> when \<open>i\<close> is out of range (here \<open>None\<close>); the bitwise
  operators first convert their operands to 32-bit integers, and \<open>NaN\<close> converts to 0.
\<close>

definition charCodeAt :: "jsstring \<Rightarrow> nat \<Rightarrow> code_unit option" where
  "charCodeAt s i = (if i < length s then Some (s ! i) else None)"

definition toInt32 :: "code_unit option \<Rightarrow> 32 word" where
  "toInt32 v = (case v of None \<Rightarrow> 0 | Some c \<Rightarrow> ucast c)"

section \<open>timingSafeEqual\<close>

text \<open>
  The loop \<open>for (let i = 0; i < a.length; i++) result |= a.charCodeAt(i) ^ b.charCodeAt(i)\<close>,
  started at index \<open>i\<close> with accumulator \<open>result\<close>.
\<close>

function timingSafeEqual_loop :: "jsstring \<Rightarrow> jsstring \<Rightarrow> nat \<Rightarrow> 32 word \<Rightarrow> 32 word" where
  "timingSafeEqual_loop a b i result =
     (if i < length a
      then timingSafeEqual_loop a b (Suc i)
             (result OR (toInt32 (charCodeAt a i) XOR toInt32 (charCodeAt b i)))
      else result)"
  by pat_completeness auto
termination
  by (relation "measure (\<lambda>(a, b, i, result). length a - i)") auto

declare timingSafeEqual_loop.simps [simp del]

definition timingSafeEqual :: "jsstring \<Rightarrow> jsstring \<Rightarrow> bool" where
  "timingSafeEqual a b =
     (if length a \<noteq> length b then False
      else timingSafeEqual_loop a b 0 0 = 0)"

text \<open>
  The accumulator in the words of the specification: the bitwise OR, over all positions,
  of the XOR of the two character codes at that position.
\<close>

definition or_of_xors :: "jsstring \<Rightarrow> jsstring \<Rightarrow> 32 word" where
  "or_of_xors a b = foldl (OR) 0 (map (\<lambda>(x, y). ucast x XOR ucast y) (zip a b))"

section \<open>String operations of the runtime used by the source\<close>

text \<open>
  \<open>s.split(sep)\<close> for a separator of one code unit (the source splits at \<open>" "\<close> and at
  \<open>","\<close>): the pieces between the separators, in order; the empty string gives one empty piece.
\<close>

fun js_split :: "code_unit \<Rightarrow> jsstring \<Rightarrow> jsstring list" where
  "js_split sep [] = [[]]"
| "js_split sep (c # cs) =
     (if c = sep then [] # js_split sep cs
      else (case js_split sep cs of
              w # ws \<Rightarrow> (c # w) # ws
            | [] \<Rightarrow> [[c]]))"

text \<open>\<open>s.startsWith(p)\<close> and \<open>s.slice(n)\<close> for a non-negative \<open>n\<close>.\<close>

definition startsWith :: "jsstring \<Rightarrow> jsstring \<Rightarrow> bool" where
  "startsWith p s = (take (length p) s = p)"

definition slice :: "nat \<Rightarrow> jsstring \<Rightarrow> jsstring" where
  "slice n s = drop n s"

text \<open>
  \<open>s.replace(pat, rep)\<close> with a string pattern replaces the first occurrence of \<open>pat\<close>
  in \<open>s\<close>, wherever it stands, and leaves \<open>s\<close> as it is when there is none.
\<close>

fun replace_first :: "jsstring \<Rightarrow> jsstring \<Rightarrow> jsstring \<Rightarrow> jsstring" where
  "replace_first pat rep [] = (if pat = [] then rep else [])"
| "replace_first pat rep (c # cs) =
     (if startsWith pat (c # cs) then rep @ drop (length pat) (c # cs)
      else c # replace_first pat rep cs)"

text \<open>\<open>xs.join(sep)\<close> on an array of strings.\<close>

fun join :: "jsstring \<Rightarrow> jsstring list \<Rightarrow> jsstring" where
  "join sep [] = []"
| "join sep [x] = x"
| "join sep (x # y # ys) = x @ sep @ join sep (y # ys)"

text \<open>
  Truthiness of a value of type \<open>string | undefined\<close> (or \<open>string | null | undefined\<close>):
  false for \<open>undefined\<close>, \<open>null\<close> and the empty string.
\<close>

definition truthy :: "jsstring option \<Rightarrow> bool" where
  "truthy v = (case v of None \<Rightarrow> False | Some s \<Rightarrow> s \<noteq> [])"

section \<open>Base64 of the runtime: btoa and atob\<close>

text \<open>
  The base64 alphabet: \<open>A\<close> to \<open>Z\<close> are the values 0 to 25, \<open>a\<close> to \<open>z\<close> 26 to 51,
  \<open>0\<close> to \<open>9\<close> 52 to 61, \<open>+\<close> is 62 and \<open>/\<close> is 63.
\<close>

definition b64_char :: "nat \<Rightarrow> code_unit" where
  "b64_char n =
     (if n < 26 then of_nat (n + 65)
      else if n < 52 then of_nat (n + 71)
      else if n < 62 then of_nat (n - 4)
      else if n = 62 then 0x2B else 0x2F)"

definition b64_index :: "code_unit \<Rightarrow> nat option" where
  "b64_index c =
     (let n = unat c
      in if 65 \<le> n \<and> n \<le> 90 then Some (n - 65)
         else if 97 \<le> n \<and> n \<le> 122 then Some (n - 71)
         else if 48 \<le> n \<and> n \<le> 57 then Some (n + 4)
         else if n = 43 then Some 62
         else if n = 47 then Some 63
         else None)"

fun b64_encode :: "nat list \<Rightarrow> jsstring" where
  "b64_encode (a # b # c # r) =
     [b64_char (a div 4), b64_char ((a mod 4) * 16 + b div 16),
      b64_char ((b mod 16) * 4 + c div 64), b64_char (c mod 64)] @ b64_encode r"
| "b64_encode [a, b] =
     [b64_char (a div 4), b64_char ((a mod 4) * 16 + b div 16),
      b64_char ((b mod 16) * 4), 0x3D]"
| "b64_encode [a] = [b64_char (a div 4), b64_char ((a mod 4) * 16), 0x3D, 0x3D]"
| "b64_encode [] = []"

text \<open>\<open>btoa\<close> throws (\<open>None\<close>) when a code unit of its argument is above 255.\<close>

definition btoa :: "jsstring \<Rightarrow> jsstring option" where
  "btoa s = (if \<exists>c \<in> set s. 255 < c then None else Some (b64_encode (map unat s)))"

fun b64_decode :: "nat list \<Rightarrow> nat list" where
  "b64_decode (a # b # c # d # r) =
     [a * 4 + b div 16, (b mod 16) * 16 + c div 4, (c mod 4) * 64 + d] @ b64_decode r"
| "b64_decode [a, b, c] = [a * 4 + b div 16, (b mod 16) * 16 + c div 4]"
| "b64_decode [a, b] = [a * 4 + b div 16]"
| "b64_decode _ = []"

definition strip_padding :: "jsstring \<Rightarrow> jsstring" where
  "strip_padding d =
     (case rev d of
        e1 # e2 # r \<Rightarrow> if e1 = 0x3D \<and> e2 = 0x3D then rev r
                      else if e1 = 0x3D then rev (e2 # r) else d
      | [e1] \<Rightarrow> if e1 = 0x3D then [] else d
      | [] \<Rightarrow> d)"

text \<open>
  \<open>atob\<close> (forgiving base64 decoding): ASCII whitespace is dropped; when the length is a
  multiple of four, one or two trailing \<open>=\<close> are dropped; a length of 1 modulo 4 or a code
  unit outside the base64 alphabet throws (\<open>None\<close>). The result has one code unit, at most
  255, for every decoded byte.
\<close>

definition atob :: "jsstring \<Rightarrow> jsstring option" where
  "atob s =
     (let d = filter (\<lambda>c. c \<notin> {0x09, 0x0A, 0x0C, 0x0D, 0x20}) s;
          d' = (if length d mod 4 = 0 then strip_padding d else d)
      in if length d' mod 4 = 1 then None
         else (case those (map b64_index d') of
                 None \<Rightarrow> None
               | Some vs \<Rightarrow> Some (map of_nat (b64_decode vs))))"

section \<open>Values, errors and the primitives taken from the runtime\<close>

text \<open>
  The result of \<open>JSON.parse\<close>. An object is the list of its members; \<open>undefined\<close>, which
  \<open>JSON.parse\<close> never returns but a property access can, is \<open>None\<close> of an \<open>option\<close>.
\<close>

datatype jsvalue =
    JNull
  | JBool bool
  | JNumber rat
  | JString jsstring
  | JArray "jsvalue list"
  | JObject "(jsstring \<times> jsvalue) list"

datatype error =
    InvalidCharacterError   \<comment> \<open>\<open>atob\<close> or \<open>btoa\<close> on a string it rejects\<close>
  | DataError               \<comment> \<open>\<open>crypto.subtle\<close> rejecting the key\<close>
  | SyntaxError             \<comment> \<open>\<open>JSON.parse\<close> on a body that is not JSON\<close>
  | TypeError               \<comment> \<open>a property read on \<open>undefined\<close> or \<open>null\<close>\<close>
  | ArgumentValidationError \<comment> \<open>a mutation argument rejected by its validator\<close>
  | NotUnique               \<comment> \<open>\<open>.unique()\<close> on a query with more than one result\<close>
  | Error jsstring          \<comment> \<open>\<open>throw new Error(message)\<close>\<close>

text \<open>
  The source calls three primitives of its runtime whose code is not part of the
  repository. They are parameters of the model:
  \<^item> \<open>encode s\<close> is \<open>new TextEncoder().encode(s)\<close>, the UTF-8 bytes of a string;
  \<^item> \<open>sign key data\<close> is \<open>crypto.subtle.importKey\<close> of the raw key for HMAC with SHA-256,
    followed by \<open>crypto.subtle.sign\<close> of \<open>data\<close> with that key: the HMAC-SHA-256 of
    \<open>data\<close>, or \<open>None\<close> when the key is rejected;
  \<^item> \<open>parse s\<close> is \<open>JSON.parse(s)\<close>, or \<open>None\<close> when it throws.
\<close>

record platform =
  encode :: "jsstring \<Rightarrow> bytes"
  sign :: "bytes \<Rightarrow> bytes \<Rightarrow> bytes option"
  parse :: "jsstring \<Rightarrow> jsvalue option"

section \<open>HMAC helpers of the source\<close>

definition hmacSha256 :: "platform \<Rightarrow> bytes \<Rightarrow> jsstring \<Rightarrow> error + bytes" where
  "hmacSha256 P key message =
     (case sign P key (encode P message) of
        None \<Rightarrow> Inl DataError
      | Some buf \<Rightarrow> Inr buf)"

text \<open>\<open>btoa(String.fromCharCode(...new Uint8Array(buf)))\<close>\<close>

definition bufToBase64 :: "bytes \<Rightarrow> error + jsstring" where
  "bufToBase64 buf =
     (case btoa (map ucast buf) of
        None \<Rightarrow> Inl InvalidCharacterError
      | Some s \<Rightarrow> Inr s)"

text \<open>\<open>n.toString(16)\<close> for a non-negative integer, and \<open>s.padStart(2, "0")\<close>.\<close>

definition hex_digit :: "nat \<Rightarrow> code_unit" where
  "hex_digit d = (if d < 10 then of_nat (d + 48) else of_nat (d + 87))"

fun toString16 :: "nat \<Rightarrow> jsstring" where
  "toString16 n = (if n < 16 then [hex_digit n] else toString16 (n div 16) @ [hex_digit (n mod 16)])"

declare toString16.simps [simp del]

definition padStart2 :: "jsstring \<Rightarrow> jsstring" where
  "padStart2 s = replicate (2 - length s) 0x30 @ s"

definition bufToHex :: "bytes \<Rightarrow> jsstring" where
  "bufToHex buf = join [] (map (\<lambda>b. padStart2 (toString16 (unat b))) buf)"

text \<open>
  \<open>base64Decode\<close>: \<open>atob\<close>, then each character code stored into a \<open>Uint8Array\<close>
  (which keeps its low eight bits).
\<close>

definition base64Decode :: "jsstring \<Rightarrow> error + bytes" where
  "base64Decode str =
     (case atob str of
        None \<Rightarrow> Inl InvalidCharacterError
      | Some bin \<Rightarrow> Inr (map ucast bin))"

section \<open>verifySvixSignature\<close>

text \<open>\<open>const [, sigValue] = versionedSig.split(",")\<close>: the second piece, or \<open>undefined\<close>.\<close>

definition second_piece :: "jsstring list \<Rightarrow> jsstring option" where
  "second_piece ps = (case ps of _ # v # _ \<Rightarrow> Some v | _ \<Rightarrow> None)"

text \<open>The \<open>for ... of\<close> loop over the entries of the header, with its early return.\<close>

fun svix_loop :: "jsstring \<Rightarrow> jsstring list \<Rightarrow> bool" where
  "svix_loop expected [] = False"
| "svix_loop expected (versionedSig # signatures) =
     (let sigValue = second_piece (js_split 0x2C versionedSig)
      in if truthy sigValue \<and> timingSafeEqual expected (the sigValue) then True
         else svix_loop expected signatures)"

definition verifySvixSignature ::
  "platform \<Rightarrow> jsstring \<Rightarrow> jsstring \<Rightarrow> jsstring \<Rightarrow> jsstring \<Rightarrow> jsstring \<Rightarrow> error + bool" where
  "verifySvixSignature P secret svixId svixTimestamp svixSignature body =
     (case base64Decode (replace_first (lit ''whsec_'') [] secret) of
        Inl e \<Rightarrow> Inl e
      | Inr secretBytes \<Rightarrow>
          (let signedContent = svixId @ lit ''.'' @ svixTimestamp @ lit ''.'' @ body
           in case hmacSha256 P secretBytes signedContent of
                Inl e \<Rightarrow> Inl e
              | Inr sig \<Rightarrow>
                  (case bufToBase64 sig of
                     Inl e \<Rightarrow> Inl e
                   | Inr expected \<Rightarrow> Inr (svix_loop expected (js_split 0x20 svixSignature)))))"

section \<open>verifyStripeSignature\<close>

definition verifyStripeSignature ::
  "platform \<Rightarrow> jsstring \<Rightarrow> jsstring \<Rightarrow> jsstring \<Rightarrow> error + bool" where
  "verifyStripeSignature P secret stripeSignature body =
     (let parts = js_split 0x2C stripeSignature;
          timestamp = map_option (slice 2) (find (startsWith (lit ''t='')) parts);
          v1Signature = map_option (slice 3) (find (startsWith (lit ''v1='')) parts)
      in if \<not> (truthy timestamp \<and> truthy v1Signature) then Inr False
         else (let signedPayload = the timestamp @ lit ''.'' @ body
               in case sign P (encode P secret) (encode P signedPayload) of
                    None \<Rightarrow> Inl DataError
                  | Some sig \<Rightarrow> Inr (timingSafeEqual (bufToHex sig) (the v1Signature))))"

section \<open>The document store\<close>

text \<open>
  The tables \<open>users\<close> and \<open>subscriptions\<close> of the schema. A table is the list of its rows
  in creation order, which is the order in which \<open>.collect()\<close> and an index range over equal
  keys return them. The store gives every inserted document a fresh \<open>_id\<close> (fields \<open>u_id\<close>
  and \<open>s_id\<close>), here the next value of a counter. An optional field that is not set is
  \<open>None\<close>; \<open>ctx.db.patch\<close> overwrites the fields it is given and removes a field given
  as \<open>undefined\<close>.
\<close>

record user =
  u_id :: nat
  name :: jsstring
  email :: "jsstring option"
  imageUrl :: "jsstring option"
  externalId :: jsstring

record subscription =
  s_id :: nat
  userId :: nat
  stripeCustomerId :: jsstring
  stripeSubscriptionId :: "jsstring option"
  status :: jsstring
  plan :: "jsstring option"

record db =
  users :: "user list"
  subscriptions :: "subscription list"
  next_id :: nat

text \<open>\<open>.unique()\<close>: the single result, \<open>null\<close> when there is none, an error when there are several.\<close>

definition unique :: "'a list \<Rightarrow> error + 'a option" where
  "unique rows = (case rows of [] \<Rightarrow> Inr None | [r] \<Rightarrow> Inr (Some r) | _ \<Rightarrow> Inl NotUnique)"

text \<open>\<open>.first()\<close>: the first result, or \<open>null\<close>.\<close>

definition first :: "'a list \<Rightarrow> 'a option" where
  "first rows = (case rows of [] \<Rightarrow> None | r # _ \<Rightarrow> Some r)"

definition byExternalId :: "db \<Rightarrow> jsstring \<Rightarrow> user list" where
  "byExternalId d e = filter (\<lambda>u. externalId u = e) (users d)"

definition byStripeCustomerId :: "db \<Rightarrow> jsstring \<Rightarrow> subscription list" where
  "byStripeCustomerId d c = filter (\<lambda>s. stripeCustomerId s = c) (subscriptions d)"

definition patch_user :: "nat \<Rightarrow> (user \<Rightarrow> user) \<Rightarrow> db \<Rightarrow> db" where
  "patch_user i f d = d\<lparr>users := map (\<lambda>u. if u_id u = i then f u else u) (users d)\<rparr>"

definition delete_user :: "nat \<Rightarrow> db \<Rightarrow> db" where
  "delete_user i d = d\<lparr>users := filter (\<lambda>u. u_id u \<noteq> i) (users d)\<rparr>"

definition patch_subscription :: "nat \<Rightarrow> (subscription \<Rightarrow> subscription) \<Rightarrow> db \<Rightarrow> db" where
  "patch_subscription i f d =
     d\<lparr>subscriptions := map (\<lambda>s. if s_id s = i then f s else s) (subscriptions d)\<rparr>"

section \<open>Mutations on users\<close>

text \<open>The type \<open>ClerkUserData\<close>; \<open>None\<close> is an absent (or \<open>null\<close>) field.\<close>

record ClerkUserData =
  clerk_id :: jsstring
  first_name :: "jsstring option"
  last_name :: "jsstring option"
  email_addresses :: "jsstring list option"
  image_url :: "jsstring option"

text \<open>\<open>[event.first_name, event.last_name].filter(Boolean).join(" ") || "Unknown"\<close>\<close>

definition clerk_name :: "ClerkUserData \<Rightarrow> jsstring" where
  "clerk_name event =
     (let joined = join (lit '' '') (map the (filter truthy [first_name event, last_name event]))
      in if joined = [] then lit ''Unknown'' else joined)"

text \<open>\<open>event.email_addresses?.[0]?.email_address\<close>\<close>

definition clerk_email :: "ClerkUserData \<Rightarrow> jsstring option" where
  "clerk_email event =
     (case email_addresses event of
        None \<Rightarrow> None
      | Some [] \<Rightarrow> None
      | Some (a # _) \<Rightarrow> Some a)"

text \<open>
  A mutation returns its result, or the error it throws, together with the store as it has
  written it.
\<close>

definition upsertFromClerk :: "db \<Rightarrow> ClerkUserData \<Rightarrow> (error + nat) \<times> db" where
  "upsertFromClerk d event =
     (let name' = clerk_name event
      in case unique (byExternalId d (clerk_id event)) of
           Inl e \<Rightarrow> (Inl e, d)
         | Inr (Some existing) \<Rightarrow>
             (Inr (u_id existing),
              patch_user (u_id existing)
                (\<lambda>u. u\<lparr>name := name', email := clerk_email event, imageUrl := image_url event\<rparr>) d)
         | Inr None \<Rightarrow>
             (Inr (next_id d),
              d\<lparr>users := users d @
                     [\<lparr>u_id = next_id d, name = name', email = clerk_email event,
                       imageUrl = image_url event, externalId = clerk_id event\<rparr>],
                 next_id := Suc (next_id d)\<rparr>))"

definition deleteFromClerk :: "db \<Rightarrow> jsstring \<Rightarrow> (error + unit) \<times> db" where
  "deleteFromClerk d clerkId =
     (case unique (byExternalId d clerkId) of
        Inl e \<Rightarrow> (Inl e, d)
      | Inr (Some user) \<Rightarrow> (Inr (), delete_user (u_id user) d)
      | Inr None \<Rightarrow> (Inr (), d))"

section \<open>Mutations on subscriptions\<close>

text \<open>
  The arguments of \<open>upsertSubscription\<close> are \<open>stripeCustomerId\<close>, the optional
  \<open>stripeSubscriptionId\<close>, \<open>status\<close> and the optional \<open>plan\<close>, in this order.
\<close>

definition upsertSubscription ::
  "db \<Rightarrow> jsstring \<Rightarrow> jsstring option \<Rightarrow> jsstring \<Rightarrow> jsstring option \<Rightarrow> (error + nat) \<times> db" where
  "upsertSubscription d customer subscriptionId status' plan' =
     (case first (byStripeCustomerId d customer) of
        Some existing \<Rightarrow>
          (Inr (s_id existing),
           patch_subscription (s_id existing)
             (\<lambda>s. s\<lparr>stripeSubscriptionId := subscriptionId, status := status', plan := plan'\<rparr>) d)
      | None \<Rightarrow>
          (case users d of
             [] \<Rightarrow>
               (Inl (Error (lit ''No user found to link subscription for customer '' @ customer)), d)
           | user # _ \<Rightarrow>
               (Inr (next_id d),
                d\<lparr>subscriptions := subscriptions d @
                       [\<lparr>s_id = next_id d, userId = u_id user, stripeCustomerId = customer,
                         stripeSubscriptionId = subscriptionId, status = status', plan = plan'\<rparr>],
                   next_id := Suc (next_id d)\<rparr>)))"

definition cancelSubscription :: "db \<Rightarrow> jsstring \<Rightarrow> (error + unit) \<times> db" where
  "cancelSubscription d customer =
     (case first (byStripeCustomerId d customer) of
        Some subscription \<Rightarrow>
          (Inr (), patch_subscription (s_id subscription) (\<lambda>s. s\<lparr>status := lit ''canceled''\<rparr>) d)
      | None \<Rightarrow> (Inr (), d))"

section \<open>Reading the parsed event\<close>

text \<open>
  \<open>v.k\<close> for the property names the handlers read (\<open>type\<close>, \<open>data\<close>, \<open>id\<close>, \<open>object\<close>,
  \<open>customer\<close>, \<open>status\<close>): a \<open>TypeError\<close> on \<open>undefined\<close> and \<open>null\<close>, the member of an
  object, and \<open>undefined\<close> on every other value, none of which has a property of these
  names. An object that \<open>JSON.parse\<close> returns has no two members of the same name.
\<close>

fun get_prop :: "jsvalue option \<Rightarrow> jsstring \<Rightarrow> error + jsvalue option" where
  "get_prop None k = Inl TypeError"
| "get_prop (Some JNull) k = Inl TypeError"
| "get_prop (Some (JObject kvs)) k = Inr (map_of kvs k)"
| "get_prop (Some _) k = Inr None"

fun truthy_value :: "jsvalue option \<Rightarrow> bool" where
  "truthy_value None = False"
| "truthy_value (Some JNull) = False"
| "truthy_value (Some (JBool b)) = b"
| "truthy_value (Some (JNumber n)) = (n \<noteq> 0)"
| "truthy_value (Some (JString s)) = (s \<noteq> [])"
| "truthy_value (Some _) = True"

text \<open>
  \<open>upsertFromClerk\<close> casts its argument to \<open>ClerkUserData\<close> without a check. The model
  reads the parsed payload as the mutation does, on the payloads for which every value it
  stores is a string or absent: the \<open>id\<close> is a string; each name is absent, \<open>null\<close>, a
  string, a boolean or an integer; the e-mail address that the mutation reads is absent
  or a string; the image is absent or a string. On any other payload the conversion is
  \<open>None\<close>.
\<close>









section \<open>The endpoint /clerk-users-webhook\<close>

record request =
  headers :: "jsstring \<Rightarrow> jsstring option"
  body :: jsstring

datatype payload = Text jsstring | Json jsvalue

text \<open>\<open>new Response(body, {status, headers})\<close>\<close>

datatype response = Response payload nat "(jsstring \<times> jsstring) list"

text \<open>
  What a handler does with a request: it responds, or an error leaves it, or (\<open>Unspecified\<close>)
  the payload is one the model does not read and the model says nothing.
\<close>

datatype outcome = Responded response | Threw error | Unspecified

datatype step = Done | Raised error | OutsideModel

definition step_of :: "(error + 'a) \<times> db \<Rightarrow> step \<times> db" where
  "step_of r = (case r of (Inl e, d) \<Rightarrow> (Raised e, d) | (Inr _, d) \<Rightarrow> (Done, d))"




section \<open>The endpoint /stripe-webhook\<close>

text \<open>
  \<open>typeof o.customer === "string" ? o.customer : (o.customer as { id: string } | null)?.id\<close>
\<close>

definition customer_of :: "jsvalue option \<Rightarrow> error + jsvalue option" where
  "customer_of obj =
     (case get_prop obj (lit ''customer'') of
        Inl e \<Rightarrow> Inl e
      | Inr c \<Rightarrow>
          (case c of
             Some (JString s) \<Rightarrow> Inr (Some (JString s))
           | None \<Rightarrow> Inr None
           | Some JNull \<Rightarrow> Inr None
           | Some v \<Rightarrow> get_prop (Some v) (lit ''id'')))"

text \<open>
  The argument validators of the mutations: a required string, and an optional string.
\<close>

definition required_string :: "jsvalue option \<Rightarrow> error + jsstring" where
  "required_string v = (case v of Some (JString s) \<Rightarrow> Inr s | _ \<Rightarrow> Inl ArgumentValidationError)"

definition validated_optional :: "jsvalue option \<Rightarrow> error + jsstring option" where
  "validated_optional v =
     (case v of
        None \<Rightarrow> Inr None
      | Some (JString s) \<Rightarrow> Inr (Some s)
      | Some _ \<Rightarrow> Inl ArgumentValidationError)"

text \<open>\<open>event.data.object\<close>\<close>

definition event_object :: "jsvalue \<Rightarrow> error + jsvalue option" where
  "event_object event =
     (case get_prop (Some event) (lit ''data'') of
        Inl e \<Rightarrow> Inl e
      | Inr data \<Rightarrow> get_prop data (lit ''object''))"

text \<open>The \<open>switch (event.type)\<close> of the handler, case by case.\<close>

definition stripe_dispatch :: "db \<Rightarrow> jsvalue \<Rightarrow> step \<times> db" where
  "stripe_dispatch d event =
     (case get_prop (Some event) (lit ''type'') of
        Inl e \<Rightarrow> (Raised e, d)
      | Inr ty \<Rightarrow>
          if ty = Some (JString (lit ''checkout.session.completed''))
          then
            (case event_object event of
               Inl e \<Rightarrow> (Raised e, d)
             | Inr session \<Rightarrow>
                 (case customer_of session of
                    Inl e \<Rightarrow> (Raised e, d)
                  | Inr customerId \<Rightarrow>
                      if truthy_value customerId
                      then (case required_string customerId of
                              Inl e \<Rightarrow> (Raised e, d)
                            | Inr customer \<Rightarrow>
                                step_of (upsertSubscription d customer None (lit ''active'') None))
                      else (Done, d)))
          else if ty = Some (JString (lit ''customer.subscription.updated''))
          then
            (case event_object event of
               Inl e \<Rightarrow> (Raised e, d)
             | Inr subscription \<Rightarrow>
                 (case customer_of subscription of
                    Inl e \<Rightarrow> (Raised e, d)
                  | Inr customerId \<Rightarrow>
                      if truthy_value customerId
                      then (case (get_prop subscription (lit ''id''),
                                  get_prop subscription (lit ''status'')) of
                              (Inr sid, Inr st) \<Rightarrow>
                                (case (required_string customerId, validated_optional sid,
                                       required_string st) of
                                   (Inr customer, Inr subscriptionId, Inr status') \<Rightarrow>
                                     step_of (upsertSubscription d customer subscriptionId status' None)
                                 | _ \<Rightarrow> (Raised ArgumentValidationError, d))
                            | _ \<Rightarrow> (Raised TypeError, d))
                      else (Done, d)))
          else if ty = Some (JString (lit ''subscription_schedule.canceled''))
          then
            (case event_object event of
               Inl e \<Rightarrow> (Raised e, d)
             | Inr schedule \<Rightarrow>
                 (case customer_of schedule of
                    Inl e \<Rightarrow> (Raised e, d)
                  | Inr customerId \<Rightarrow>
                      if truthy_value customerId
                      then (case required_string customerId of
                              Inl e \<Rightarrow> (Raised e, d)
                            | Inr customer \<Rightarrow> step_of (cancelSubscription d customer))
                      else (Done, d)))
          else (Done, d))"

definition received_response :: response where
  "received_response =
     Response (Json (JObject [(lit ''received'', JBool True)])) 200
       [(lit ''Content-Type'', lit ''application/json'')]"

definition stripe_webhook ::
  "platform \<Rightarrow> jsstring option \<Rightarrow> request \<Rightarrow> db \<Rightarrow> outcome \<times> db" where
  "stripe_webhook P webhookSecret req d =
     (if \<not> truthy webhookSecret
      then (Responded (Response (Text (lit ''Stripe webhook secret not configured'')) 500 []), d)
      else
        (let signature = headers req (lit ''stripe-signature'')
         in if \<not> truthy signature
            then (Responded (Response (Text (lit ''Missing stripe-signature header'')) 400 []), d)
            else
              (case verifyStripeSignature P (the webhookSecret) (the signature) (body req) of
                 Inl e \<Rightarrow> (Threw e, d)
               | Inr valid \<Rightarrow>
                   if \<not> valid
                   then (Responded (Response (Text (lit ''Invalid signature'')) 400 []), d)
                   else
                     (case parse P (body req) of
                        None \<Rightarrow> (Threw SyntaxError, d)
                      | Some event \<Rightarrow>
                          (case stripe_dispatch d event of
                             (Raised e, d') \<Rightarrow> (Threw e, d')
                           | (OutsideModel, d') \<Rightarrow> (Unspecified, d')
                           | (Done, d') \<Rightarrow> (Responded received_response, d'))))))"

section \<open>The two verifiers in the words of the specification\<close>

text \<open>
  Stripping the prefix \<open>p\<close> from a string: the rest of the string when it starts with
  \<open>p\<close>, the string itself otherwise.
\<close>

definition strip_prefix :: "jsstring \<Rightarrow> jsstring \<Rightarrow> jsstring" where
  "strip_prefix p s = (if startsWith p s then drop (length p) s else s)"

text \<open>
  An entry split at its first comma into the version tag before it and the candidate
  value after it; an entry without a comma has no candidate.
\<close>

definition split_at_comma :: "jsstring \<Rightarrow> (jsstring \<times> jsstring) option" where
  "split_at_comma entry =
     (if 0x2C \<in> set entry
      then Some (takeWhile (\<lambda>c. c \<noteq> 0x2C) entry, tl (dropWhile (\<lambda>c. c \<noteq> 0x2C) entry))
      else None)"

text \<open>
  The specification's condition for an authentic identity-provider request: some
  space-separated entry of the signature header has a non-empty candidate equal to the
  base64 encoding of the HMAC-SHA-256 of \<open>id.timestamp.body\<close> under the base64-decoded
  secret, the prefix \<open>whsec_\<close> stripped.
\<close>

definition svix_authentic_spec ::
  "platform \<Rightarrow> jsstring \<Rightarrow> jsstring \<Rightarrow> jsstring \<Rightarrow> jsstring \<Rightarrow> jsstring \<Rightarrow> bool" where
  "svix_authentic_spec P secret svixId svixTimestamp svixSignature payload =
     (case atob (strip_prefix (lit ''whsec_'') secret) of
        None \<Rightarrow> False
      | Some key \<Rightarrow>
          (case sign P (map ucast key)
                  (encode P (svixId @ lit ''.'' @ svixTimestamp @ lit ''.'' @ payload)) of
             None \<Rightarrow> False
           | Some mac \<Rightarrow>
               (case btoa (map ucast mac) of
                  None \<Rightarrow> False
                | Some expected \<Rightarrow>
                    list_ex
                      (\<lambda>entry. case split_at_comma entry of
                                 None \<Rightarrow> False
                               | Some (tag, candidate) \<Rightarrow> candidate \<noteq> [] \<and> candidate = expected)
                      (js_split 0x20 svixSignature))))"

text \<open>
  The specification's condition for an authentic payment-provider request: the
  comma-separated header has a field starting with \<open>t=\<close> and a field starting with
  \<open>v1=\<close> (the first of each), and the value of the latter is the lowercase hexadecimal
  HMAC-SHA-256 of \<open>timestamp.body\<close> under the secret.
\<close>

definition stripe_authentic_spec :: "platform \<Rightarrow> jsstring \<Rightarrow> jsstring \<Rightarrow> jsstring \<Rightarrow> bool" where
  "stripe_authentic_spec P secret stripeSignature payload =
     (case (find (startsWith (lit ''t='')) (js_split 0x2C stripeSignature),
            find (startsWith (lit ''v1='')) (js_split 0x2C stripeSignature)) of
        (Some t_field, Some v1_field) \<Rightarrow>
          (case sign P (encode P secret) (encode P (drop 2 t_field @ lit ''.'' @ payload)) of
             None \<Rightarrow> False
           | Some mac \<Rightarrow> drop 3 v1_field = bufToHex mac)
      | _ \<Rightarrow> False)"

section \<open>Sample inputs\<close>

text \<open>
  Concrete inputs on which the model is evaluated below. \<open>sample_platform\<close> is the
  runtime on the inputs these evaluations use: its \<open>encode\<close> is UTF-8 on ASCII strings, its
  \<open>sign\<close> is the table of the HMAC-SHA-256 values of the keys and messages listed, its
  \<open>parse\<close> is the table of the values of the bodies listed. A body that is not listed and
  that the evaluations use is not JSON.
\<close>

definition ascii :: "string \<Rightarrow> bytes" where
  "ascii s = map (\<lambda>c. of_char c) s"

definition sample_hmacs :: "((bytes \<times> bytes) \<times> bytes) list" where
  \<open>sample_hmacs =
       [((ascii ''secret'', ascii ''msg_1.1700000000.{"type":"user.created","data":{"id":"usr_1","first_name":"Ada","last_name":"Lovelace"}}''),
         [97, 82, 228, 176, 137, 194, 218, 146, 74, 136, 193, 232, 126, 82, 4, 231, 47, 230, 217, 56, 48, 19, 20, 218, 137, 158, 151, 238, 17, 40, 221, 178]),
        ((ascii ''secret'', ascii ''msg_1.1700000000.{"type":"user.deleted","data":{}}''),
         [43, 204, 87, 76, 61, 204, 51, 210, 43, 41, 201, 169, 232, 73, 241, 68, 52, 22, 141, 198, 41, 114, 135, 162, 38, 14, 240, 159, 147, 206, 228, 239]),
        ((ascii ''secret'', ascii ''msg_1.1700000000.{"type":"session.created","data":{"id":"sess_1"}}''),
         [26, 125, 58, 60, 63, 42, 100, 156, 15, 252, 140, 87, 180, 165, 142, 30, 102, 172, 157, 96, 236, 77, 141, 76, 214, 243, 229, 115, 185, 119, 21, 61]),
        ((ascii ''secret'', ascii ''msg_1.1700000000.{"type":"user.updated","data":{"id":"usr_1","first_name":"Ada","last_name":"King","email_addresses":[{"email_address":"ada@example.com"},{"email_address":"countess@example.com"}],"image_url":"https://img.example/ada.png"}}''),
         [178, 236, 150, 124, 5, 31, 226, 26, 96, 226, 205, 3, 62, 198, 183, 99, 179, 30, 103, 95, 79, 143, 140, 205, 101, 60, 233, 15, 114, 89, 24, 244]),
        ((ascii ''secret'', ascii ''msg_1.1700000000.{"type":"user.created","data":{"id":"usr_3","first_name":7,"last_name":true}}''),
         [64, 4, 2, 57, 246, 73, 42, 217, 93, 71, 38, 64, 33, 216, 165, 141, 23, 1, 52, 114, 184, 188, 60, 8, 4, 232, 206, 92, 176, 147, 20, 149]),
        ((ascii ''secret'', ascii ''msg_1.1700000000.{"type":"user.deleted","data":{"id":"usr_1"}}''),
         [236, 223, 70, 27, 44, 168, 235, 163, 174, 41, 243, 109, 116, 213, 193, 80, 97, 79, 13, 98, 236, 244, 165, 207, 157, 38, 63, 117, 14, 78, 105, 58]),
        ((ascii ''secret'', ascii ''msg_1.1700000000.null''),
         [107, 47, 235, 218, 255, 115, 97, 216, 185, 144, 237, 232, 20, 38, 223, 59, 31, 99, 181, 40, 151, 142, 64, 33, 78, 238, 34, 21, 143, 9, 158, 63]),
        ((ascii ''secret'', ascii ''msg_1.1700000000.{"type":"user.deleted"}''),
         [137, 216, 221, 251, 53, 91, 168, 23, 216, 7, 32, 70, 223, 31, 39, 222, 145, 125, 204, 116, 227, 187, 240, 133, 230, 47, 71, 14, 119, 15, 166, 94]),
        ((ascii ''secret'', ascii ''msg_1.1700000000.not json''),
         [148, 253, 233, 232, 11, 54, 42, 234, 82, 140, 32, 30, 109, 86, 20, 192, 171, 13, 124, 94, 32, 117, 189, 178, 224, 126, 124, 188, 101, 18, 110, 220]),
        ((ascii ''secret'', ascii ''msg_1.1700000000.{}''),
         [3, 154, 8, 172, 156, 87, 60, 31, 207, 145, 66, 210, 161, 91, 180, 123, 137, 33, 188, 248, 170, 164, 95, 111, 150, 57, 161, 145, 34, 160, 208, 82]),
        (([0, 0, 0], ascii ''msg_1.1700000000.{}''),
         [47, 55, 141, 197, 145, 232, 220, 239, 31, 194, 145, 73, 164, 184, 127, 208, 31, 125, 186, 2, 11, 52, 82, 112, 251, 255, 101, 78, 12, 116, 0, 251]),
        ((ascii ''whsec_test'', ascii ''1700000000.{}''),
         [53, 73, 80, 36, 244, 239, 63, 148, 229, 169, 62, 34, 34, 21, 68, 196, 183, 94, 154, 66, 48, 12, 217, 101, 171, 129, 203, 133, 205, 153, 78, 145]),
        ((ascii ''whsec_test'', ascii ''1700000000.{"type":"checkout.session.completed","data":{"object":{"customer":"cus_1"}}}''),
         [154, 9, 107, 187, 121, 211, 227, 65, 98, 130, 97, 21, 73, 28, 145, 178, 216, 242, 72, 59, 248, 95, 237, 125, 184, 38, 15, 250, 122, 44, 203, 140]),
        ((ascii ''whsec_test'', ascii ''.{}''),
         [252, 221, 79, 178, 221, 94, 227, 129, 160, 77, 78, 137, 232, 44, 237, 183, 234, 210, 93, 41, 103, 8, 23, 110, 137, 209, 43, 179, 167, 115, 87, 193])]\<close>

definition body_created :: jsstring where
  \<open>body_created = lit ''{"type":"user.created","data":{"id":"usr_1","first_name":"Ada","last_name":"Lovelace"}}''\<close>

definition body_deleted :: jsstring where
  \<open>body_deleted = lit ''{"type":"user.deleted","data":{}}''\<close>

definition body_other :: jsstring where
  \<open>body_other = lit ''{"type":"session.created","data":{"id":"sess_1"}}''\<close>

definition body_checkout :: jsstring where
  \<open>body_checkout = lit ''{"type":"checkout.session.completed","data":{"object":{"customer":"cus_1"}}}''\<close>

definition body_updated :: jsstring where
  \<open>body_updated = lit ''{"type":"user.updated","data":{"id":"usr_1","first_name":"Ada","last_name":"King","email_addresses":[{"email_address":"ada@example.com"},{"email_address":"countess@example.com"}],"image_url":"https://img.example/ada.png"}}''\<close>

definition body_numeric :: jsstring where
  \<open>body_numeric = lit ''{"type":"user.created","data":{"id":"usr_3","first_name":7,"last_name":true}}''\<close>

definition body_deleted_id :: jsstring where
  \<open>body_deleted_id = lit ''{"type":"user.deleted","data":{"id":"usr_1"}}''\<close>

definition body_null :: jsstring where
  \<open>body_null = lit ''null''\<close>

definition body_deleted_no_data :: jsstring where
  \<open>body_deleted_no_data = lit ''{"type":"user.deleted"}''\<close>

definition event_created :: jsvalue where
  "event_created =
     JObject [(lit ''type'', JString (lit ''user.created'')),
              (lit ''data'', JObject [(lit ''id'', JString (lit ''usr_1'')),
                                      (lit ''first_name'', JString (lit ''Ada'')),
                                      (lit ''last_name'', JString (lit ''Lovelace''))])]"

definition event_deleted :: jsvalue where
  "event_deleted =
     JObject [(lit ''type'', JString (lit ''user.deleted'')), (lit ''data'', JObject [])]"

definition event_other :: jsvalue where
  "event_other =
     JObject [(lit ''type'', JString (lit ''session.created'')),
              (lit ''data'', JObject [(lit ''id'', JString (lit ''sess_1''))])]"

definition checkout_event :: jsvalue where
  "checkout_event =
     JObject [(lit ''type'', JString (lit ''checkout.session.completed'')),
              (lit ''data'',
               JObject [(lit ''object'', JObject [(lit ''customer'', JString (lit ''cus_1''))])])]"

definition event_updated :: jsvalue where
  "event_updated =
     JObject [(lit ''type'', JString (lit ''user.updated'')),
              (lit ''data'',
               JObject [(lit ''id'', JString (lit ''usr_1'')),
                        (lit ''first_name'', JString (lit ''Ada'')),
                        (lit ''last_name'', JString (lit ''King'')),
                        (lit ''email_addresses'',
                         JArray [JObject [(lit ''email_address'', JString (lit ''ada@example.com''))],
                                 JObject [(lit ''email_address'',
                                           JString (lit ''countess@example.com''))]]),
                        (lit ''image_url'', JString (lit ''https://img.example/ada.png''))])]"

definition event_numeric :: jsvalue where
  "event_numeric =
     JObject [(lit ''type'', JString (lit ''user.created'')),
              (lit ''data'', JObject [(lit ''id'', JString (lit ''usr_3'')),
                                      (lit ''first_name'', JNumber 7),
                                      (lit ''last_name'', JBool True)])]"

definition event_deleted_id :: jsvalue where
  "event_deleted_id =
     JObject [(lit ''type'', JString (lit ''user.deleted'')),
              (lit ''data'', JObject [(lit ''id'', JString (lit ''usr_1''))])]"

definition event_deleted_no_data :: jsvalue where
  "event_deleted_no_data = JObject [(lit ''type'', JString (lit ''user.deleted''))]"

definition sample_platform :: platform where
  "sample_platform =
     \<lparr>encode = map ucast,
      sign = (\<lambda>key data. map_of sample_hmacs (key, data)),
      parse = map_of [(body_created, event_created), (body_deleted, event_deleted),
                      (body_other, event_other), (body_checkout, checkout_event),
                      (body_updated, event_updated), (body_numeric, event_numeric),
                      (body_deleted_id, event_deleted_id), (body_null, JNull),
                      (body_deleted_no_data, event_deleted_no_data),
                      (lit ''{}'', JObject [])]\<rparr>"

text \<open>
  A request to /clerk-users-webhook with message id \<open>msg_1\<close> and timestamp \<open>1700000000\<close>;
  the signatures below are those of the bodies under the secret \<open>whsec_c2VjcmV0\<close>.
\<close>

definition sample_secret :: jsstring where
  "sample_secret = lit ''whsec_c2VjcmV0''"











definition sig_empty_object :: jsstring where
  "sig_empty_object = lit ''v1,A5oIrJxXPB/PkULSoVu0e4khvPiqpF9vljmhkSKg0FI=''"

definition sig_zero_key :: jsstring where
  "sig_zero_key = lit ''v1,LzeNxZHo3O8fwpFJpLh/0B99ugILNFJw+/9lTgx0APs=''"

definition stripe_sig :: jsstring where
  "stripe_sig = lit ''t=1700000000,v1=35495024f4ef3f94e5a93e22221544c4b75e9a42300cd965ab81cb85cd994e91''"

definition stripe_sig_checkout :: jsstring where
  "stripe_sig_checkout = lit ''t=1700000000,v1=9a096bbb79d3e34162826115491c91b2d8f2483bf85fed7db8260ffa7a2ccb8c''"

definition stripe_request :: "jsstring \<Rightarrow> jsstring \<Rightarrow> request" where
  "stripe_request signature payload =
     \<lparr>headers = map_of [(lit ''stripe-signature'', signature)], body = payload\<rparr>"

definition stripe_sig_empty_timestamp :: jsstring where
  "stripe_sig_empty_timestamp = lit ''t=,v1=fcdd4fb2dd5ee381a04d4e89e82cedb7ead25d296708176e89d12bb3a77357c1''"

definition ada :: user where
  "ada = \<lparr>u_id = 0, name = lit ''Ada Lovelace'', email = None, imageUrl = None,
           externalId = lit ''usr_1''\<rparr>"

definition ada_data :: ClerkUserData where
  "ada_data = \<lparr>clerk_id = lit ''usr_1'', first_name = Some (lit ''Ada''),
     last_name = Some (lit ''Lovelace''), email_addresses = None, image_url = None\<rparr>"

definition ada_king_data :: ClerkUserData where
  "ada_king_data = \<lparr>clerk_id = lit ''usr_1'', first_name = Some (lit ''Ada''),
     last_name = Some (lit ''King''),
     email_addresses = Some [lit ''ada@example.com'', lit ''countess@example.com''],
     image_url = Some (lit ''https://img.example/ada.png'')\<rparr>"

definition ada_king :: user where
  "ada_king = \<lparr>u_id = 0, name = lit ''Ada King'', email = Some (lit ''ada@example.com''),
     imageUrl = Some (lit ''https://img.example/ada.png''), externalId = lit ''usr_1''\<rparr>"

definition nameless_data :: ClerkUserData where
  "nameless_data = \<lparr>clerk_id = lit ''usr_2'', first_name = Some [], last_name = None,
     email_addresses = None, image_url = None\<rparr>"

definition sub_1 :: subscription where
  "sub_1 = \<lparr>s_id = 1, userId = 0, stripeCustomerId = lit ''cus_1'',
             stripeSubscriptionId = Some (lit ''sub_1''), status = lit ''past_due'',
             plan = Some (lit ''pro'')\<rparr>"

definition empty_db :: db where
  "empty_db = \<lparr>users = [], subscriptions = [], next_id = 0\<rparr>"

definition sample_db :: db where
  "sample_db = \<lparr>users = [ada], subscriptions = [sub_1], next_id = 2\<rparr>"

section \<open>timingSafeEqual compares strings\<close>

lemma word_xor_zero_iff: "((x::'a::len word) XOR y = 0) = (x = y)"
proof
  assume h: "x XOR y = 0"
  show "x = y"
  proof (rule bit_eqI)
    fix n
    have "bit (x XOR y) n = bit (0::'a word) n" using h by simp
    then show "bit x n = bit y n" by (simp add: bit_xor_iff)
  qed
qed simp

lemma ucast_code_unit_zero_iff: "((ucast (z :: code_unit) :: 32 word) = 0) = (z = 0)"
proof
  assume h: "(ucast z :: 32 word) = 0"
  show "z = 0"
  proof (rule bit_eqI)
    fix n
    assume "possible_bit TYPE(code_unit) n"
    then have n: "n < 16" by (simp add: possible_bit_word)
    have "bit (ucast z :: 32 word) n = bit (0 :: 32 word) n" using h by simp
    then show "bit z n = bit (0 :: code_unit) n" using n by (simp add: bit_ucast_iff)
  qed
qed simp

lemma ucast_xor_zero_iff:
  "((ucast (x :: code_unit) :: 32 word) XOR ucast (y :: code_unit) = 0) = (x = y)"
proof -
  have "(ucast x :: 32 word) XOR ucast y = ucast (x XOR y)"
    by (simp add: unsigned_xor_eq)
  then show ?thesis
    by (simp add: ucast_code_unit_zero_iff word_xor_zero_iff)
qed

lemma loop_zero_iff:
  "length a = length b \<Longrightarrow>
   (timingSafeEqual_loop a b i r = 0) = (r = 0 \<and> drop i a = drop i b)"
proof (induction a b i r rule: timingSafeEqual_loop.induct)
  case (1 a b i result)
  show ?case
  proof (cases "i < length a")
    case True
    then have ib: "i < length b" using "1.prems" by simp
    have da: "drop i a = a ! i # drop (Suc i) a" using True by (simp add: Cons_nth_drop_Suc)
    have db: "drop i b = b ! i # drop (Suc i) b" using ib by (simp add: Cons_nth_drop_Suc)
    from True ib "1.IH" [OF True "1.prems"] show ?thesis
      by (subst timingSafeEqual_loop.simps)
         (auto simp: charCodeAt_def toInt32_def or_eq_0_iff ucast_xor_zero_iff da db)
  next
    case False
    then show ?thesis using "1.prems"
      by (subst timingSafeEqual_loop.simps) simp
  qed
qed

lemma loop_eq_foldl:
  "length a = length b \<Longrightarrow>
   timingSafeEqual_loop a b i r =
     foldl (OR) r (map (\<lambda>(x, y). ucast x XOR ucast y) (zip (drop i a) (drop i b)))"
proof (induction a b i r rule: timingSafeEqual_loop.induct)
  case (1 a b i result)
  show ?case
  proof (cases "i < length a")
    case True
    then have ib: "i < length b" using "1.prems" by simp
    have da: "drop i a = a ! i # drop (Suc i) a" using True by (simp add: Cons_nth_drop_Suc)
    have db: "drop i b = b ! i # drop (Suc i) b" using ib by (simp add: Cons_nth_drop_Suc)
    from True ib "1.IH" [OF True "1.prems"] show ?thesis
      by (subst timingSafeEqual_loop.simps)
         (simp add: charCodeAt_def toInt32_def da db)
  next
    case False
    then show ?thesis using "1.prems"
      by (subst timingSafeEqual_loop.simps) simp
  qed
qed

lemma timingSafeEqual_iff_eq: "timingSafeEqual a b = (a = b)"
proof (cases "length a = length b")
  case True
  then show ?thesis
    using loop_zero_iff [OF True, of 0 0] by (simp add: timingSafeEqual_def)
next
  case False
  then show ?thesis by (auto simp: timingSafeEqual_def)
qed

text \<open>
  Claim C5. For every pair of strings \<open>a\<close> and \<open>b\<close>, \<open>timingSafeEqual\<close> returns false
  whenever their lengths differ; for equal lengths its result is true exactly when the
  bitwise OR of the XORs of corresponding character codes over the full string is zero,
  and hence exactly when \<open>a\<close> equals \<open>b\<close>.
\<close>

theorem timingSafeEqual_correct:
  "(length a \<noteq> length b \<longrightarrow> \<not> timingSafeEqual a b) \<and>
   (length a = length b \<longrightarrow>
      timingSafeEqual a b = (or_of_xors a b = 0) \<and>
      timingSafeEqual a b = (a = b))"
proof (cases "length a = length b")
  case True
  have "timingSafeEqual a b = (timingSafeEqual_loop a b 0 0 = 0)"
    using True by (simp add: timingSafeEqual_def)
  moreover have "timingSafeEqual_loop a b 0 0 = or_of_xors a b"
    using loop_eq_foldl [OF True, of 0 0] by (simp add: or_of_xors_def)
  moreover have "(timingSafeEqual_loop a b 0 0 = 0) = (a = b)"
    using loop_zero_iff [OF True, of 0 0] by simp
  ultimately show ?thesis using True by simp
next
  case False
  then show ?thesis by (simp add: timingSafeEqual_def)
qed

text \<open>Strings of different lengths, equal strings, and strings that differ in the last place.\<close>

theorem timingSafeEqual_correct_witness:
  "\<not> timingSafeEqual (lit ''ab'') (lit ''abc'') \<and>
   timingSafeEqual (lit ''abc'') (lit ''abc'') \<and>
   or_of_xors (lit ''abc'') (lit ''abc'') = 0 \<and>
   \<not> timingSafeEqual (lit ''abc'') (lit ''abd'') \<and>
   or_of_xors (lit ''abc'') (lit ''abd'') = 7"
  using timingSafeEqual_correct [of "lit ''ab''" "lit ''abc''"]
        timingSafeEqual_correct [of "lit ''abc''" "lit ''abc''"]
        timingSafeEqual_correct [of "lit ''abc''" "lit ''abd''"]
  by (simp add: lit_def or_of_xors_def)

section \<open>Evaluation on sample inputs\<close>

lemmas eval_defs =
  base64Decode_def atob_def strip_padding_def b64_index_def hmacSha256_def bufToBase64_def
  btoa_def b64_char_def sample_platform_def sample_hmacs_def ascii_def lit_def startsWith_def
  second_piece_def truthy_def timingSafeEqual_iff_eq

lemmas hex_defs = bufToHex_def padStart2_def toString16.simps hex_digit_def

lemmas body_defs =
  body_created_def body_deleted_def body_other_def body_checkout_def body_updated_def
  body_numeric_def body_deleted_id_def body_null_def body_deleted_no_data_def

section \<open>verifySvixSignature\<close>

lemma svix_loop_iff:
  "svix_loop expected entries =
     (\<exists>entry \<in> set entries. \<exists>candidate.
        second_piece (js_split 0x2C entry) = Some candidate \<and> candidate \<noteq> [] \<and>
        candidate = expected)"
  by (induction entries)
     (auto simp: Let_def truthy_def timingSafeEqual_iff_eq split: option.splits)

text \<open>
  Claim C1, as amended. For every secret, message id, timestamp, signature header and body,
  \<open>verifySvixSignature\<close> returns true if and only if the secret with the first occurrence
  of \<open>whsec_\<close> removed decodes as base64 to a key, HMAC-SHA-256 under that key of
  \<open>id.timestamp.body\<close> is computed, and some space-separated entry of the signature header,
  split at every comma, has as its second piece a non-empty candidate equal to the base64
  encoding of that HMAC.
\<close>

theorem verifySvixSignature_iff:
  "(verifySvixSignature P secret svixId svixTimestamp svixSignature payload = Inr True) =
   (\<exists>key mac expected.
      atob (replace_first (lit ''whsec_'') [] secret) = Some key \<and>
      sign P (map ucast key)
        (encode P (svixId @ lit ''.'' @ svixTimestamp @ lit ''.'' @ payload)) = Some mac \<and>
      btoa (map ucast mac) = Some expected \<and>
      (\<exists>entry \<in> set (js_split 0x20 svixSignature). \<exists>candidate.
         second_piece (js_split 0x2C entry) = Some candidate \<and> candidate \<noteq> [] \<and>
         candidate = expected))"
  by (auto simp: verifySvixSignature_def base64Decode_def hmacSha256_def bufToBase64_def
      svix_loop_iff Let_def split: option.splits sum.splits)

lemma svix_empty_object_eval:
  "verifySvixSignature sample_platform sample_secret (lit ''msg_1'') (lit ''1700000000'')
     sig_empty_object (lit ''{}'') = Inr True"
  by (simp add: verifySvixSignature_def sample_secret_def sig_empty_object_def eval_defs)

lemma svix_wrong_eval:
  "verifySvixSignature sample_platform sample_secret (lit ''msg_1'') (lit ''1700000000'')
     (lit ''v1,AAAA'') (lit ''{}'') = Inr False"
  by (simp add: verifySvixSignature_def sample_secret_def eval_defs)

text \<open>
  The theorem at the request with id \<open>msg_1\<close>, timestamp \<open>1700000000\<close> and body \<open>{}\<close>
  signed under \<open>whsec_c2VjcmV0\<close>, and at the same request with another signature.
\<close>

theorem verifySvixSignature_iff_witness:
  "verifySvixSignature sample_platform sample_secret (lit ''msg_1'') (lit ''1700000000'')
     sig_empty_object (lit ''{}'') = Inr True \<and>
   (\<exists>key mac expected.
      atob (replace_first (lit ''whsec_'') [] sample_secret) = Some key \<and>
      sign sample_platform (map ucast key)
        (encode sample_platform (lit ''msg_1'' @ lit ''.'' @ lit ''1700000000'' @ lit ''.'' @ lit ''{}''))
        = Some mac \<and>
      btoa (map ucast mac) = Some expected \<and>
      (\<exists>entry \<in> set (js_split 0x20 sig_empty_object). \<exists>candidate.
         second_piece (js_split 0x2C entry) = Some candidate \<and> candidate \<noteq> [] \<and>
         candidate = expected)) \<and>
   verifySvixSignature sample_platform sample_secret (lit ''msg_1'') (lit ''1700000000'')
     (lit ''v1,AAAA'') (lit ''{}'') \<noteq> Inr True"
proof -
  note ok = svix_empty_object_eval
  have "\<exists>key mac expected.
      atob (replace_first (lit ''whsec_'') [] sample_secret) = Some key \<and>
      sign sample_platform (map ucast key)
        (encode sample_platform (lit ''msg_1'' @ lit ''.'' @ lit ''1700000000'' @ lit ''.'' @ lit ''{}''))
        = Some mac \<and>
      btoa (map ucast mac) = Some expected \<and>
      (\<exists>entry \<in> set (js_split 0x20 sig_empty_object). \<exists>candidate.
         second_piece (js_split 0x2C entry) = Some candidate \<and> candidate \<noteq> [] \<and>
         candidate = expected)"
    using ok
      verifySvixSignature_iff [of sample_platform sample_secret "lit ''msg_1''" "lit ''1700000000''"
        sig_empty_object "lit ''{}''"]
    by blast
  moreover have "verifySvixSignature sample_platform sample_secret (lit ''msg_1'')
      (lit ''1700000000'') (lit ''v1,AAAA'') (lit ''{}'') \<noteq> Inr True"
    using svix_wrong_eval by simp
  ultimately show ?thesis using ok by blast
qed

lemma svix_zero_key_eval:
  "verifySvixSignature sample_platform (lit ''AAAAwhsec_'') (lit ''msg_1'') (lit ''1700000000'')
     sig_zero_key (lit ''{}'') = Inr True"
  by (simp add: verifySvixSignature_def sig_zero_key_def eval_defs)

lemma svix_zero_key_spec:
  "\<not> svix_authentic_spec sample_platform (lit ''AAAAwhsec_'') (lit ''msg_1'') (lit ''1700000000'')
     sig_zero_key (lit ''{}'')"
  by (simp add: svix_authentic_spec_def strip_prefix_def eval_defs)

lemma svix_extra_field_eval:
  "verifySvixSignature sample_platform sample_secret (lit ''msg_1'') (lit ''1700000000'')
     (sig_empty_object @ lit '',x'') (lit ''{}'') = Inr True"
  by (simp add: verifySvixSignature_def sample_secret_def sig_empty_object_def eval_defs)

lemma svix_extra_field_spec:
  "\<not> svix_authentic_spec sample_platform sample_secret (lit ''msg_1'') (lit ''1700000000'')
     (sig_empty_object @ lit '',x'') (lit ''{}'')"
  by (simp add: svix_authentic_spec_def strip_prefix_def split_at_comma_def sample_secret_def
      sig_empty_object_def eval_defs)

text \<open>
  The claim as it is stated fails at two inputs. The secret \<open>AAAAwhsec_\<close> has no prefix
  \<open>whsec_\<close> and is not base64, yet the source removes the \<open>whsec_\<close> inside it, decodes
  \<open>AAAA\<close> and accepts a signature made with that key. The entry \<open>v1,<signature>,x\<close> has
  the candidate \<open><signature>,x\<close> after its first comma, which is not the expected
  signature, yet the source compares the piece between the first two commas and accepts.
\<close>

theorem verifySvixSignature_counterexample:
  "verifySvixSignature sample_platform (lit ''AAAAwhsec_'') (lit ''msg_1'') (lit ''1700000000'')
     sig_zero_key (lit ''{}'') = Inr True \<and>
   \<not> svix_authentic_spec sample_platform (lit ''AAAAwhsec_'') (lit ''msg_1'') (lit ''1700000000'')
     sig_zero_key (lit ''{}'') \<and>
   verifySvixSignature sample_platform sample_secret (lit ''msg_1'') (lit ''1700000000'')
     (sig_empty_object @ lit '',x'') (lit ''{}'') = Inr True \<and>
   \<not> svix_authentic_spec sample_platform sample_secret (lit ''msg_1'') (lit ''1700000000'')
     (sig_empty_object @ lit '',x'') (lit ''{}'')"
  using svix_zero_key_eval svix_zero_key_spec svix_extra_field_eval svix_extra_field_spec
  by simp

section \<open>verifyStripeSignature\<close>

text \<open>
  Claim C2, as amended. For every secret, signature header and body,
  \<open>verifyStripeSignature\<close> returns true if and only if the comma-separated header has a
  field starting with \<open>t=\<close> and a field starting with \<open>v1=\<close>, the first of each having a
  non-empty value, and the \<open>v1\<close> value equals the lowercase hexadecimal encoding of the
  HMAC-SHA-256 of \<open>timestamp.body\<close> with the secret as key; if either field is absent, or
  the value of the first of either is empty, it returns false.
\<close>

theorem verifyStripeSignature_iff:
  "((verifyStripeSignature P secret stripeSignature payload = Inr True) =
    (\<exists>t_field v1_field mac.
       find (startsWith (lit ''t='')) (js_split 0x2C stripeSignature) = Some t_field \<and>
       find (startsWith (lit ''v1='')) (js_split 0x2C stripeSignature) = Some v1_field \<and>
       drop 2 t_field \<noteq> [] \<and> drop 3 v1_field \<noteq> [] \<and>
       sign P (encode P secret) (encode P (drop 2 t_field @ lit ''.'' @ payload)) = Some mac \<and>
       drop 3 v1_field = bufToHex mac)) \<and>
   (find (startsWith (lit ''t='')) (js_split 0x2C stripeSignature) = None \<or>
    find (startsWith (lit ''v1='')) (js_split 0x2C stripeSignature) = None \<longrightarrow>
      verifyStripeSignature P secret stripeSignature payload = Inr False) \<and>
   (find (startsWith (lit ''t='')) (js_split 0x2C stripeSignature) = Some t_field \<and>
      drop 2 t_field = [] \<or>
    find (startsWith (lit ''v1='')) (js_split 0x2C stripeSignature) = Some v1_field \<and>
      drop 3 v1_field = [] \<longrightarrow>
      verifyStripeSignature P secret stripeSignature payload = Inr False)"
  by (auto simp: verifyStripeSignature_def Let_def truthy_def slice_def timingSafeEqual_iff_eq
      split: option.splits)

lemma stripe_sig_eval:
  "verifyStripeSignature sample_platform (lit ''whsec_test'') stripe_sig (lit ''{}'') = Inr True"
  by (simp add: verifyStripeSignature_def stripe_sig_def slice_def eval_defs hex_defs)

lemma stripe_empty_timestamp_field:
  "find (startsWith (lit ''t='')) (js_split 0x2C stripe_sig_empty_timestamp) = Some (lit ''t='')"
  "drop 2 (lit ''t='') = []"
  by (simp_all add: stripe_sig_empty_timestamp_def eval_defs)

text \<open>
  The theorem at the header \<open>t=1700000000,v1=...\<close> of the body \<open>{}\<close> under the secret
  \<open>whsec_test\<close>, at a header with no \<open>t=\<close> field, and at a header whose \<open>t=\<close> field has
  an empty value.
\<close>

theorem verifyStripeSignature_iff_witness:
  "verifyStripeSignature sample_platform (lit ''whsec_test'') stripe_sig (lit ''{}'') = Inr True \<and>
   (\<exists>t_field v1_field mac.
       find (startsWith (lit ''t='')) (js_split 0x2C stripe_sig) = Some t_field \<and>
       find (startsWith (lit ''v1='')) (js_split 0x2C stripe_sig) = Some v1_field \<and>
       drop 2 t_field \<noteq> [] \<and> drop 3 v1_field \<noteq> [] \<and>
       sign sample_platform (encode sample_platform (lit ''whsec_test''))
         (encode sample_platform (drop 2 t_field @ lit ''.'' @ lit ''{}'')) = Some mac \<and>
       drop 3 v1_field = bufToHex mac) \<and>
   find (startsWith (lit ''t='')) (js_split 0x2C (lit ''v1=00'')) = None \<and>
   verifyStripeSignature sample_platform (lit ''whsec_test'') (lit ''v1=00'') (lit ''{}'') = Inr False \<and>
   find (startsWith (lit ''t='')) (js_split 0x2C stripe_sig_empty_timestamp) = Some (lit ''t='') \<and>
   verifyStripeSignature sample_platform (lit ''whsec_test'') stripe_sig_empty_timestamp (lit ''{}'')
     = Inr False"
proof -
  note ok = stripe_sig_eval
  have fields: "\<exists>t_field v1_field mac.
       find (startsWith (lit ''t='')) (js_split 0x2C stripe_sig) = Some t_field \<and>
       find (startsWith (lit ''v1='')) (js_split 0x2C stripe_sig) = Some v1_field \<and>
       drop 2 t_field \<noteq> [] \<and> drop 3 v1_field \<noteq> [] \<and>
       sign sample_platform (encode sample_platform (lit ''whsec_test''))
         (encode sample_platform (drop 2 t_field @ lit ''.'' @ lit ''{}'')) = Some mac \<and>
       drop 3 v1_field = bufToHex mac"
    using ok verifyStripeSignature_iff [of sample_platform "lit ''whsec_test''" stripe_sig "lit ''{}''"]
    by blast
  have absent: "find (startsWith (lit ''t='')) (js_split 0x2C (lit ''v1=00'')) = None"
    by (simp add: eval_defs)
  then have no_t: "verifyStripeSignature sample_platform (lit ''whsec_test'') (lit ''v1=00'') (lit ''{}'')
      = Inr False"
    using verifyStripeSignature_iff [of sample_platform "lit ''whsec_test''" "lit ''v1=00''" "lit ''{}''"]
    by blast
  have "verifyStripeSignature sample_platform (lit ''whsec_test'') stripe_sig_empty_timestamp
      (lit ''{}'') = Inr False"
    using stripe_empty_timestamp_field
      verifyStripeSignature_iff [of sample_platform "lit ''whsec_test''" stripe_sig_empty_timestamp
        "lit ''{}''" "lit ''t=''"]
    by blast
  with ok fields absent no_t stripe_empty_timestamp_field(1) show ?thesis by blast
qed

lemma stripe_empty_timestamp_eval:
  "verifyStripeSignature sample_platform (lit ''whsec_test'') stripe_sig_empty_timestamp (lit ''{}'')
     = Inr False"
  by (simp add: verifyStripeSignature_def stripe_sig_empty_timestamp_def slice_def eval_defs)

lemma stripe_empty_timestamp_spec:
  "stripe_authentic_spec sample_platform (lit ''whsec_test'') stripe_sig_empty_timestamp (lit ''{}'')"
  by (simp add: stripe_authentic_spec_def stripe_sig_empty_timestamp_def eval_defs hex_defs)

text \<open>
  The claim as it is stated fails at the header \<open>t=,v1=<hex>\<close>, where \<open><hex>\<close> is the
  HMAC-SHA-256 of \<open>.{}\<close> under the secret: both fields are there and the \<open>v1\<close> value is
  the HMAC of \<open>timestamp.body\<close> for the empty timestamp, yet the source returns false,
  because its guard counts an empty timestamp as absent.
\<close>

theorem verifyStripeSignature_counterexample:
  "verifyStripeSignature sample_platform (lit ''whsec_test'') stripe_sig_empty_timestamp (lit ''{}'')
     = Inr False \<and>
   stripe_authentic_spec sample_platform (lit ''whsec_test'') stripe_sig_empty_timestamp (lit ''{}'')"
  using stripe_empty_timestamp_eval stripe_empty_timestamp_spec by simp

section \<open>Mutations on users\<close>

lemma unique_cases:
  "unique rows = Inr None \<longleftrightarrow> rows = []"
  "unique rows = Inr (Some r) \<longleftrightarrow> rows = [r]"
  "unique rows = Inl e \<longleftrightarrow> e = NotUnique \<and> 2 \<le> length rows"
  by (auto simp: unique_def split: list.splits)

lemma clerk_name_cases:
  "clerk_name event =
     (if truthy (first_name event) \<and> truthy (last_name event)
        then the (first_name event) @ lit '' '' @ the (last_name event)
      else if truthy (first_name event) then the (first_name event)
      else if truthy (last_name event) then the (last_name event)
      else lit ''Unknown'')"
  by (auto simp: clerk_name_def truthy_def Let_def split: option.splits)

lemma filter_patch_other:
  "filter (\<lambda>u. externalId u = e) xs = [] \<Longrightarrow>
   filter (\<lambda>u. externalId u = e)
     (map (\<lambda>u. if u_id u = i then u\<lparr>name := n, email := m, imageUrl := g\<rparr> else u) xs) = []"
  by (induction xs) (auto split: if_splits)

lemma filter_patch_single:
  "filter (\<lambda>u. externalId u = e) xs = [existing] \<Longrightarrow>
   filter (\<lambda>u. externalId u = e)
     (map (\<lambda>u. if u_id u = u_id existing then u\<lparr>name := n, email := m, imageUrl := g\<rparr> else u) xs) =
   [existing\<lparr>name := n, email := m, imageUrl := g\<rparr>]"
proof (induction xs)
  case Nil
  then show ?case by simp
next
  case (Cons x xs)
  show ?case
  proof (cases "externalId x = e")
    case True
    with Cons.prems have x: "x = existing" and r: "filter (\<lambda>u. externalId u = e) xs = []"
      by simp_all
    from filter_patch_other [OF r] True x show ?thesis by simp
  next
    case False
    with Cons.prems have "filter (\<lambda>u. externalId u = e) xs = [existing]" by simp
    from Cons.IH [OF this] False show ?thesis by simp
  qed
qed

lemma byExternalId_patch:
  assumes "byExternalId d e = [existing]"
  shows "byExternalId (patch_user (u_id existing) (\<lambda>u. u\<lparr>name := n, email := m, imageUrl := g\<rparr>) d) e =
     [existing\<lparr>name := n, email := m, imageUrl := g\<rparr>]"
proof -
  from assms have "filter (\<lambda>u. externalId u = e) (users d) = [existing]"
    by (simp add: byExternalId_def)
  from filter_patch_single [OF this] show ?thesis
    by (simp add: byExternalId_def patch_user_def)
qed

lemma upsertFromClerk_row:
  assumes "upsertFromClerk d event = (Inr i, d')"
  shows "byExternalId d' (clerk_id event) =
           [\<lparr>u_id = i, name = clerk_name event, email = clerk_email event,
             imageUrl = image_url event, externalId = clerk_id event\<rparr>]"
proof (cases "unique (byExternalId d (clerk_id event))")
  case (Inl e)
  with assms show ?thesis by (simp add: upsertFromClerk_def)
next
  case (Inr r)
  show ?thesis
  proof (cases r)
    case None
    with Inr have "byExternalId d (clerk_id event) = []" by (simp add: unique_cases)
    with assms Inr None show ?thesis
      by (auto simp: upsertFromClerk_def byExternalId_def)
  next
    case (Some existing)
    with Inr have ex: "byExternalId d (clerk_id event) = [existing]" by (simp add: unique_cases)
    then have "existing \<in> set (filter (\<lambda>u. externalId u = clerk_id event) (users d))"
      by (simp add: byExternalId_def)
    then have e: "externalId existing = clerk_id event" by simp
    from assms Inr Some have i: "i = u_id existing"
      and d': "d' = patch_user (u_id existing)
                (\<lambda>u. u\<lparr>name := clerk_name event, email := clerk_email event,
                        imageUrl := image_url event\<rparr>) d"
      by (auto simp: upsertFromClerk_def)
    show ?thesis
      unfolding d' i byExternalId_patch [OF ex]
      using e by (cases existing) simp
  qed
qed

lemma upsertFromClerk_succeeds:
  assumes "length (byExternalId d (clerk_id event)) \<le> 1"
  shows "\<exists>i d'. upsertFromClerk d event = (Inr i, d')"
proof (cases "byExternalId d (clerk_id event)")
  case Nil
  then show ?thesis by (simp add: upsertFromClerk_def unique_def)
next
  case (Cons x xs)
  with assms have "byExternalId d (clerk_id event) = [x]" by simp
  then show ?thesis by (simp add: upsertFromClerk_def unique_def)
qed

lemma upsertFromClerk_patches:
  assumes "byExternalId d (clerk_id event) = [existing]"
  shows "upsertFromClerk d event =
    (Inr (u_id existing),
     patch_user (u_id existing)
       (\<lambda>u. u\<lparr>name := clerk_name event, email := clerk_email event, imageUrl := image_url event\<rparr>) d)"
  using assms by (simp add: upsertFromClerk_def unique_def)

text \<open>
  A store in which every external id has at most one user stays so under both mutations,
  so the hypothesis of the next theorem holds in every store these mutations build from
  the empty one.
\<close>

lemma upsertFromClerk_keeps_unique:
  assumes inv: "\<forall>e. length (byExternalId d e) \<le> 1"
    and run: "upsertFromClerk d event = (r, d')"
  shows "\<forall>e. length (byExternalId d' e) \<le> 1"
proof (cases "byExternalId d (clerk_id event)")
  case Nil
  with run have d': "d' = d\<lparr>users := users d @
                     [\<lparr>u_id = next_id d, name = clerk_name event, email = clerk_email event,
                       imageUrl = image_url event, externalId = clerk_id event\<rparr>],
                 next_id := Suc (next_id d)\<rparr>"
    by (auto simp: upsertFromClerk_def unique_def)
  show ?thesis
  proof
    fix e
    show "length (byExternalId d' e) \<le> 1"
    proof (cases "e = clerk_id event")
      case True
      with Nil show ?thesis by (simp add: d' byExternalId_def)
    next
      case False
      with inv [rule_format, of e] show ?thesis by (simp add: d' byExternalId_def)
    qed
  qed
next
  case (Cons x xs)
  with inv [rule_format, of "clerk_id event"] have one: "byExternalId d (clerk_id event) = [x]"
    by simp
  with run have d': "d' = patch_user (u_id x)
       (\<lambda>u. u\<lparr>name := clerk_name event, email := clerk_email event, imageUrl := image_url event\<rparr>) d"
    by (simp add: upsertFromClerk_patches)
  have "\<And>e. byExternalId d' e =
      map (\<lambda>u. if u_id u = u_id x
                then u\<lparr>name := clerk_name event, email := clerk_email event,
                        imageUrl := image_url event\<rparr>
                else u) (byExternalId d e)"
    by (simp add: d' byExternalId_def patch_user_def filter_map comp_def if_distrib cong: if_cong)
  with inv show ?thesis by simp
qed

lemma filter_delete_le:
  "length (filter (\<lambda>u. externalId u = e) (filter (\<lambda>u. u_id u \<noteq> i) xs))
     \<le> length (filter (\<lambda>u. externalId u = e) xs)"
  by (induction xs) auto

lemma deleteFromClerk_keeps_unique:
  assumes inv: "\<forall>e. length (byExternalId d e) \<le> 1"
    and run: "deleteFromClerk d clerkId = (r, d')"
  shows "\<forall>e. length (byExternalId d' e) \<le> 1"
proof
  fix e
  have "length (byExternalId (delete_user i d) e) \<le> length (byExternalId d e)" for i
    using filter_delete_le [of e i "users d"] by (simp add: byExternalId_def delete_user_def)
  with inv [rule_format, of e] have del: "length (byExternalId (delete_user i d) e) \<le> 1" for i
    using le_trans by blast
  from run have "d' = d \<or> (\<exists>i. d' = delete_user i d)"
    by (auto simp: deleteFromClerk_def split: sum.splits option.splits)
  with del inv show "length (byExternalId d' e) \<le> 1" by auto
qed

lemma clerk_email_cases:
  "clerk_email event =
     (case email_addresses event of Some (address # _) \<Rightarrow> Some address | _ \<Rightarrow> None)"
  by (simp add: clerk_email_def split: option.splits list.splits)

text \<open>
  Claim C6. Applying \<open>upsertFromClerk\<close> twice with the same payload, in a store with at most
  one user of that external id, leaves exactly one user row of that external id. Its name
  is the one computed from the first and last name of the payload, its e-mail is the first
  e-mail address of the payload (none when the payload has none), its image is the image
  of the payload; the second call returns the row of the first and inserts nothing.
\<close>

theorem upsertFromClerk_twice:
  assumes "length (byExternalId d (clerk_id event)) \<le> 1"
  shows "\<exists>i d1 d2.
     upsertFromClerk d event = (Inr i, d1) \<and>
     upsertFromClerk d1 event = (Inr i, d2) \<and>
     byExternalId d2 (clerk_id event) =
       [\<lparr>u_id = i,
         name =
           (if truthy (first_name event) \<and> truthy (last_name event)
              then the (first_name event) @ lit '' '' @ the (last_name event)
            else if truthy (first_name event) then the (first_name event)
            else if truthy (last_name event) then the (last_name event)
            else lit ''Unknown''),
         email =
           (case email_addresses event of Some (address # _) \<Rightarrow> Some address | _ \<Rightarrow> None),
         imageUrl = image_url event,
         externalId = clerk_id event\<rparr>] \<and>
     length (users d2) = length (users d1) \<and> next_id d2 = next_id d1"
proof -
  from upsertFromClerk_succeeds [OF assms] obtain i d1
    where first: "upsertFromClerk d event = (Inr i, d1)" by blast
  let ?row = "\<lparr>u_id = i, name = clerk_name event, email = clerk_email event,
               imageUrl = image_url event, externalId = clerk_id event\<rparr>"
  have row1: "byExternalId d1 (clerk_id event) = [?row]"
    by (rule upsertFromClerk_row [OF first])
  let ?d2 = "patch_user i
       (\<lambda>u. u\<lparr>name := clerk_name event, email := clerk_email event,
               imageUrl := image_url event\<rparr>) d1"
  have second: "upsertFromClerk d1 event = (Inr i, ?d2)"
    using upsertFromClerk_patches [OF row1] by simp
  have "byExternalId ?d2 (clerk_id event) = [?row]"
    by (rule upsertFromClerk_row [OF second])
  then have row2: "byExternalId ?d2 (clerk_id event) =
       [\<lparr>u_id = i,
         name =
           (if truthy (first_name event) \<and> truthy (last_name event)
              then the (first_name event) @ lit '' '' @ the (last_name event)
            else if truthy (first_name event) then the (first_name event)
            else if truthy (last_name event) then the (last_name event)
            else lit ''Unknown''),
         email =
           (case email_addresses event of Some (address # _) \<Rightarrow> Some address | _ \<Rightarrow> None),
         imageUrl = image_url event,
         externalId = clerk_id event\<rparr>]"
    by (simp only: clerk_name_cases clerk_email_cases)
  have "length (users ?d2) = length (users d1)" "next_id ?d2 = next_id d1"
    by (simp_all add: patch_user_def)
  with first second row2 show ?thesis by blast
qed

lemma upsert_ada_empty:
  "upsertFromClerk empty_db ada_data = (Inr 0, \<lparr>users = [ada], subscriptions = [], next_id = 1\<rparr>)"
  by (simp add: upsertFromClerk_def byExternalId_def empty_db_def unique_def ada_data_def ada_def
      clerk_name_def clerk_email_def truthy_def lit_def)

lemma upsert_ada_king_empty:
  "upsertFromClerk empty_db ada_king_data =
     (Inr 0, \<lparr>users = [ada_king], subscriptions = [], next_id = 1\<rparr>)"
  by (simp add: upsertFromClerk_def byExternalId_def empty_db_def unique_def ada_king_data_def
      ada_king_def clerk_name_def clerk_email_def truthy_def lit_def)

lemma upsert_ada_king_inserted:
  "upsertFromClerk \<lparr>users = [ada_king], subscriptions = [], next_id = 1\<rparr> ada_king_data =
     (Inr 0, \<lparr>users = [ada_king], subscriptions = [], next_id = 1\<rparr>)"
  by (simp add: upsertFromClerk_def byExternalId_def unique_def ada_king_data_def ada_king_def
      patch_user_def clerk_name_def clerk_email_def truthy_def lit_def)

lemma upsert_ada_king_sample:
  "upsertFromClerk sample_db ada_king_data =
     (Inr 0, \<lparr>users = [ada_king], subscriptions = [sub_1], next_id = 2\<rparr>)"
  by (simp add: upsertFromClerk_def byExternalId_def unique_def ada_king_data_def ada_king_def
      ada_def sample_db_def patch_user_def clerk_name_def clerk_email_def truthy_def lit_def)

lemma upsert_ada_king_patched:
  "upsertFromClerk \<lparr>users = [ada_king], subscriptions = [sub_1], next_id = 2\<rparr> ada_king_data =
     (Inr 0, \<lparr>users = [ada_king], subscriptions = [sub_1], next_id = 2\<rparr>)"
  by (simp add: upsertFromClerk_def byExternalId_def unique_def ada_king_data_def ada_king_def
      patch_user_def clerk_name_def clerk_email_def truthy_def lit_def)

text \<open>
  Two deliveries of the payload of \<open>usr_1\<close>, named Ada King, with two e-mail addresses and
  an image: into the empty store, where the first inserts the row, and into the store that
  has \<open>usr_1\<close> as Ada Lovelace with no e-mail and no image, where both patch it. In both the
  one row of \<open>usr_1\<close> ends with the name, the first e-mail address and the image of the
  payload.
\<close>

theorem upsertFromClerk_twice_witness:
  "length (byExternalId empty_db (clerk_id ada_king_data)) \<le> 1 \<and>
   upsertFromClerk empty_db ada_king_data =
     (Inr 0, \<lparr>users = [ada_king], subscriptions = [], next_id = 1\<rparr>) \<and>
   upsertFromClerk \<lparr>users = [ada_king], subscriptions = [], next_id = 1\<rparr> ada_king_data =
     (Inr 0, \<lparr>users = [ada_king], subscriptions = [], next_id = 1\<rparr>) \<and>
   length (byExternalId sample_db (clerk_id ada_king_data)) \<le> 1 \<and>
   byExternalId sample_db (lit ''usr_1'') = [ada] \<and>
   upsertFromClerk sample_db ada_king_data =
     (Inr 0, \<lparr>users = [ada_king], subscriptions = [sub_1], next_id = 2\<rparr>) \<and>
   upsertFromClerk \<lparr>users = [ada_king], subscriptions = [sub_1], next_id = 2\<rparr> ada_king_data =
     (Inr 0, \<lparr>users = [ada_king], subscriptions = [sub_1], next_id = 2\<rparr>) \<and>
   byExternalId \<lparr>users = [ada_king], subscriptions = [sub_1], next_id = 2\<rparr> (lit ''usr_1'') =
     [\<lparr>u_id = 0, name = lit ''Ada King'', email = Some (lit ''ada@example.com''),
       imageUrl = Some (lit ''https://img.example/ada.png''), externalId = lit ''usr_1''\<rparr>] \<and>
   byExternalId \<lparr>users = [ada_king], subscriptions = [], next_id = 1\<rparr> (lit ''usr_1'') =
     [\<lparr>u_id = 0, name = lit ''Ada King'', email = Some (lit ''ada@example.com''),
       imageUrl = Some (lit ''https://img.example/ada.png''), externalId = lit ''usr_1''\<rparr>]"
proof -
  have payload: "clerk_id ada_king_data = lit ''usr_1''"
    "truthy (first_name ada_king_data)" "truthy (last_name ada_king_data)"
    "the (first_name ada_king_data) @ lit '' '' @ the (last_name ada_king_data) = lit ''Ada King''"
    "email_addresses ada_king_data = Some [lit ''ada@example.com'', lit ''countess@example.com'']"
    "image_url ada_king_data = Some (lit ''https://img.example/ada.png'')"
    by (simp_all add: ada_king_data_def truthy_def lit_def)
  have h1: "length (byExternalId empty_db (clerk_id ada_king_data)) \<le> 1"
    by (simp add: byExternalId_def empty_db_def)
  have h2: "length (byExternalId sample_db (clerk_id ada_king_data)) \<le> 1"
    by (simp add: byExternalId_def sample_db_def)
  have old: "byExternalId sample_db (lit ''usr_1'') = [ada]"
    by (simp add: byExternalId_def sample_db_def ada_def)
  from upsertFromClerk_twice [OF h1] upsert_ada_king_empty upsert_ada_king_inserted
  have r1: "byExternalId \<lparr>users = [ada_king], subscriptions = [], next_id = 1\<rparr> (lit ''usr_1'') =
     [\<lparr>u_id = 0, name = lit ''Ada King'', email = Some (lit ''ada@example.com''),
       imageUrl = Some (lit ''https://img.example/ada.png''), externalId = lit ''usr_1''\<rparr>]"
    by (auto simp: payload)
  from upsertFromClerk_twice [OF h2] upsert_ada_king_sample upsert_ada_king_patched
  have r2: "byExternalId \<lparr>users = [ada_king], subscriptions = [sub_1], next_id = 2\<rparr> (lit ''usr_1'') =
     [\<lparr>u_id = 0, name = lit ''Ada King'', email = Some (lit ''ada@example.com''),
       imageUrl = Some (lit ''https://img.example/ada.png''), externalId = lit ''usr_1''\<rparr>]"
    by (auto simp: payload)
  from h1 h2 old r1 r2 upsert_ada_king_empty upsert_ada_king_inserted upsert_ada_king_sample
    upsert_ada_king_patched
  show ?thesis by simp
qed

text \<open>
  Claim C8. The name that \<open>upsertFromClerk\<close> stores is the first name and the last name
  joined with a single space when both are present and non-empty, the one of them that is
  when only one is, and \<open>Unknown\<close> when both are empty or absent.
\<close>

theorem upsertFromClerk_name:
  assumes "upsertFromClerk d event = (Inr i, d')"
  shows "\<exists>u. byExternalId d' (clerk_id event) = [u] \<and> u_id u = i \<and>
    name u =
     (if truthy (first_name event) \<and> truthy (last_name event)
        then the (first_name event) @ lit '' '' @ the (last_name event)
      else if truthy (first_name event) then the (first_name event)
      else if truthy (last_name event) then the (last_name event)
      else lit ''Unknown'')"
  using upsertFromClerk_row [OF assms] by (simp add: clerk_name_cases)

lemma upsert_nameless_empty:
  "upsertFromClerk empty_db nameless_data =
     (Inr 0, \<lparr>users = [\<lparr>u_id = 0, name = lit ''Unknown'', email = None, imageUrl = None,
                          externalId = lit ''usr_2''\<rparr>],
              subscriptions = [], next_id = 1\<rparr>)"
  by (simp add: upsertFromClerk_def byExternalId_def empty_db_def unique_def nameless_data_def
      clerk_name_def clerk_email_def truthy_def lit_def)

text \<open>
  The payloads of \<open>usr_1\<close>, named Ada Lovelace, and of \<open>usr_2\<close>, with an empty first name
  and no last name.
\<close>

theorem upsertFromClerk_name_witness:
  "upsertFromClerk empty_db ada_data =
     (Inr 0, \<lparr>users = [ada], subscriptions = [], next_id = 1\<rparr>) \<and>
   (\<exists>u. byExternalId \<lparr>users = [ada], subscriptions = [], next_id = 1\<rparr> (clerk_id ada_data) = [u] \<and>
        u_id u = 0 \<and> name u = lit ''Ada Lovelace'') \<and>
   (\<exists>d' u. upsertFromClerk empty_db nameless_data = (Inr 0, d') \<and>
        byExternalId d' (clerk_id nameless_data) = [u] \<and> name u = lit ''Unknown'')"
proof -
  from upsertFromClerk_name [OF upsert_ada_empty]
  have a: "\<exists>u. byExternalId \<lparr>users = [ada], subscriptions = [], next_id = 1\<rparr> (clerk_id ada_data) = [u] \<and>
        u_id u = 0 \<and> name u = lit ''Ada Lovelace''"
    by (simp add: ada_data_def truthy_def lit_def)
  from upsertFromClerk_name [OF upsert_nameless_empty]
  obtain u where "byExternalId \<lparr>users = [\<lparr>u_id = 0, name = lit ''Unknown'', email = None,
                 imageUrl = None, externalId = lit ''usr_2''\<rparr>],
              subscriptions = [], next_id = 1\<rparr> (clerk_id nameless_data) = [u]"
      and "name u =
       (if truthy (first_name nameless_data) \<and> truthy (last_name nameless_data)
          then the (first_name nameless_data) @ lit '' '' @ the (last_name nameless_data)
        else if truthy (first_name nameless_data) then the (first_name nameless_data)
        else if truthy (last_name nameless_data) then the (last_name nameless_data)
        else lit ''Unknown'')"
    by blast
  moreover have "\<not> truthy (first_name nameless_data)" "\<not> truthy (last_name nameless_data)"
    by (simp_all add: nameless_data_def truthy_def)
  ultimately have b: "\<exists>d' u. upsertFromClerk empty_db nameless_data = (Inr 0, d') \<and>
        byExternalId d' (clerk_id nameless_data) = [u] \<and> name u = lit ''Unknown''"
    using upsert_nameless_empty by auto
  from upsert_ada_empty a b show ?thesis by blast
qed

text \<open>
  Claim C9. \<open>deleteFromClerk\<close> with an external id that no user has returns without an
  error and leaves the store, and so the users table, as it was.
\<close>

theorem deleteFromClerk_unknown:
  "byExternalId d clerkId = [] \<Longrightarrow>
   deleteFromClerk d clerkId = (Inr (), d) \<and> users (snd (deleteFromClerk d clerkId)) = users d"
  by (simp add: deleteFromClerk_def unique_def)

text \<open>Deleting \<open>usr_2\<close> from the store whose only user is \<open>usr_1\<close>.\<close>

theorem deleteFromClerk_unknown_witness:
  "byExternalId sample_db (lit ''usr_2'') = [] \<and>
   deleteFromClerk sample_db (lit ''usr_2'') = (Inr (), sample_db)"
proof -
  have h: "byExternalId sample_db (lit ''usr_2'') = []"
    by (simp add: byExternalId_def sample_db_def ada_def lit_def)
  show ?thesis using h deleteFromClerk_unknown [OF h] by simp
qed

section \<open>Mutations on subscriptions\<close>

text \<open>
  Claim C4. \<open>upsertSubscription\<close> with a customer id that no subscription has, in a store
  with no user, throws, and the store, and so the subscriptions table, is as it was: no
  row is inserted.
\<close>

theorem upsertSubscription_no_user:
  "byStripeCustomerId d customer = [] \<Longrightarrow> users d = [] \<Longrightarrow>
   upsertSubscription d customer subscriptionId status' plan' =
     (Inl (Error (lit ''No user found to link subscription for customer '' @ customer)), d) \<and>
   subscriptions (snd (upsertSubscription d customer subscriptionId status' plan')) =
     subscriptions d"
  by (simp add: upsertSubscription_def first_def)

text \<open>The customer \<open>cus_1\<close> in the empty store.\<close>

theorem upsertSubscription_no_user_witness:
  "byStripeCustomerId empty_db (lit ''cus_1'') = [] \<and> users empty_db = [] \<and>
   upsertSubscription empty_db (lit ''cus_1'') None (lit ''active'') None =
     (Inl (Error (lit ''No user found to link subscription for customer cus_1'')), empty_db) \<and>
   subscriptions (snd (upsertSubscription empty_db (lit ''cus_1'') None (lit ''active'') None)) = []"
proof -
  have h1: "byStripeCustomerId empty_db (lit ''cus_1'') = []"
    by (simp add: byStripeCustomerId_def empty_db_def)
  have h2: "users empty_db = []" by (simp add: empty_db_def)
  have e: "subscriptions empty_db = []" by (simp add: empty_db_def)
  show ?thesis
    using h1 h2 e upsertSubscription_no_user [OF h1 h2, of None "lit ''active''" None]
    by (simp add: lit_def)
qed

lemma checkout_dispatch:
  assumes "get_prop (Some event) (lit ''type'') =
             Inr (Some (JString (lit ''checkout.session.completed'')))"
    and "event_object event = Inr session"
    and "customer_of session = Inr (Some (JString customer))"
    and "customer \<noteq> []"
  shows "stripe_dispatch d event = step_of (upsertSubscription d customer None (lit ''active'') None)"
  using assms by (simp add: stripe_dispatch_def required_string_def)

lemma upsertSubscription_existing:
  assumes "first (byStripeCustomerId d customer) = Some existing"
  shows "upsertSubscription d customer subscriptionId status' plan' =
     (Inr (s_id existing),
      d\<lparr>subscriptions :=
           map (\<lambda>s. if s_id s = s_id existing
                     then s\<lparr>stripeSubscriptionId := subscriptionId, status := status', plan := plan'\<rparr>
                     else s) (subscriptions d)\<rparr>)"
  using assms by (simp add: upsertSubscription_def patch_subscription_def)

lemma stripe_webhook_verified:
  assumes "truthy webhookSecret"
    and "truthy (headers req (lit ''stripe-signature''))"
    and "verifyStripeSignature P (the webhookSecret) (the (headers req (lit ''stripe-signature'')))
           (body req) = Inr True"
  shows "stripe_webhook P webhookSecret req d =
     (case parse P (body req) of
        None \<Rightarrow> (Threw SyntaxError, d)
      | Some event \<Rightarrow>
          (case stripe_dispatch d event of
             (Raised e, d') \<Rightarrow> (Threw e, d')
           | (OutsideModel, d') \<Rightarrow> (Unspecified, d')
           | (Done, d') \<Rightarrow> (Responded received_response, d')))"
  using assms by (simp add: stripe_webhook_def Let_def)

text \<open>
  What the handler does on every verified delivery of a \<open>checkout.session.completed\<close> event
  whose customer has a subscription row: the rows of that row's identity get the status
  \<open>active\<close> and lose their subscription id and their plan, and nothing else changes.
\<close>

lemma checkout_completed_store:
  assumes secret: "truthy webhookSecret"
    and header: "truthy (headers req (lit ''stripe-signature''))"
    and verified: "verifyStripeSignature P (the webhookSecret)
                     (the (headers req (lit ''stripe-signature''))) (body req) = Inr True"
    and parsed: "parse P (body req) = Some event"
    and ty: "get_prop (Some event) (lit ''type'') =
               Inr (Some (JString (lit ''checkout.session.completed'')))"
    and session: "event_object event = Inr session"
    and customer: "customer_of session = Inr (Some (JString customer))"
    and nonempty: "customer \<noteq> []"
    and existing: "first (byStripeCustomerId d customer) = Some existing"
  shows "stripe_webhook P webhookSecret req d =
     (Responded received_response,
      d\<lparr>subscriptions :=
           map (\<lambda>s. if s_id s = s_id existing
                     then s\<lparr>stripeSubscriptionId := None, status := lit ''active'', plan := None\<rparr>
                     else s) (subscriptions d)\<rparr>)"
proof -
  have "stripe_dispatch d event =
     (Done,
      d\<lparr>subscriptions :=
           map (\<lambda>s. if s_id s = s_id existing
                     then s\<lparr>stripeSubscriptionId := None, status := lit ''active'', plan := None\<rparr>
                     else s) (subscriptions d)\<rparr>)"
    unfolding checkout_dispatch [OF ty session customer nonempty]
      upsertSubscription_existing [OF existing]
    by (simp add: step_of_def)
  then show ?thesis
    using parsed by (simp add: stripe_webhook_verified [OF secret header verified])
qed

text \<open>The sibling mutation \<open>cancelSubscription\<close> patches the status and nothing else.\<close>

lemma cancelSubscription_existing:
  assumes "first (byStripeCustomerId d customer) = Some existing"
  shows "cancelSubscription d customer =
     (Inr (),
      d\<lparr>subscriptions :=
           map (\<lambda>s. if s_id s = s_id existing then s\<lparr>status := lit ''canceled''\<rparr> else s)
             (subscriptions d)\<rparr>)"
  using assms by (simp add: cancelSubscription_def patch_subscription_def)

lemma sample_existing:
  "first (byStripeCustomerId sample_db (lit ''cus_1'')) = Some sub_1"
  by (simp add: first_def byStripeCustomerId_def sample_db_def sub_1_def)

lemma checkout_request:
  "truthy (Some (lit ''whsec_test''))"
  "headers (stripe_request stripe_sig_checkout body_checkout) (lit ''stripe-signature'') =
     Some stripe_sig_checkout"
  "truthy (Some stripe_sig_checkout)"
  "body (stripe_request stripe_sig_checkout body_checkout) = body_checkout"
  "parse sample_platform body_checkout = Some checkout_event"
  by (simp_all add: stripe_request_def stripe_sig_checkout_def sample_platform_def truthy_def
      body_defs lit_def)

lemma checkout_verified:
  "verifyStripeSignature sample_platform (lit ''whsec_test'') stripe_sig_checkout body_checkout
     = Inr True"
  by (simp add: verifyStripeSignature_def stripe_sig_checkout_def body_checkout_def slice_def
      eval_defs hex_defs)

lemma checkout_event_props:
  "get_prop (Some checkout_event) (lit ''type'') =
     Inr (Some (JString (lit ''checkout.session.completed'')))"
  "event_object checkout_event = Inr (Some (JObject [(lit ''customer'', JString (lit ''cus_1''))]))"
  "customer_of (Some (JObject [(lit ''customer'', JString (lit ''cus_1''))])) =
     Inr (Some (JString (lit ''cus_1'')))"
  "lit ''cus_1'' \<noteq> []"
  by (simp_all add: checkout_event_def event_object_def customer_of_def lit_def)

lemma checkout_request_eval:
  "stripe_webhook sample_platform (Some (lit ''whsec_test''))
     (stripe_request stripe_sig_checkout body_checkout) sample_db =
   (Responded received_response,
    sample_db\<lparr>subscriptions :=
        [sub_1\<lparr>stripeSubscriptionId := None, status := lit ''active'', plan := None\<rparr>]\<rparr>)"
proof -
  let ?req = "stripe_request stripe_sig_checkout body_checkout"
  have secret: "truthy (Some (lit ''whsec_test''))"
    and header: "truthy (headers ?req (lit ''stripe-signature''))"
    and verified: "verifyStripeSignature sample_platform (the (Some (lit ''whsec_test'')))
           (the (headers ?req (lit ''stripe-signature''))) (body ?req) = Inr True"
    and parsed: "parse sample_platform (body ?req) = Some checkout_event"
    using checkout_verified by (simp_all add: checkout_request)
  from checkout_completed_store
    [OF secret header verified parsed checkout_event_props sample_existing]
  show ?thesis by (simp add: sample_db_def)
qed

lemma cancel_sample_eval:
  "cancelSubscription sample_db (lit ''cus_1'') =
     (Inr (), sample_db\<lparr>subscriptions := [sub_1\<lparr>status := lit ''canceled''\<rparr>]\<rparr>)"
  using cancelSubscription_existing [OF sample_existing] by (simp add: sample_db_def)

text \<open>
  Claim C3. The claim is that a \<open>checkout.session.completed\<close> delivery for a customer who
  has a subscription row sets that row's \<open>status\<close> to \<open>active\<close> and leaves
  \<open>stripeSubscriptionId\<close>, \<open>plan\<close>, \<open>userId\<close> and \<open>stripeCustomerId\<close> as they were. The
  code does not keep it: at the signed delivery for the customer \<open>cus_1\<close>, whose row has
  the subscription id \<open>sub_1\<close> and the plan \<open>pro\<close>, the handler responds 200 and leaves the
  row with the status \<open>active\<close>, the same \<open>userId\<close> and \<open>stripeCustomerId\<close>, and neither a
  subscription id nor a plan, while \<open>cancelSubscription\<close> on the same row keeps both.
\<close>

theorem checkout_completed_erases:
  "first (byStripeCustomerId sample_db (lit ''cus_1'')) = Some sub_1 \<and>
   stripeSubscriptionId sub_1 = Some (lit ''sub_1'') \<and>
   plan sub_1 = Some (lit ''pro'') \<and>
   stripe_webhook sample_platform (Some (lit ''whsec_test''))
     (stripe_request stripe_sig_checkout body_checkout) sample_db =
   (Responded received_response,
    \<lparr>users = [ada],
     subscriptions =
       [\<lparr>s_id = 1, userId = 0, stripeCustomerId = lit ''cus_1'', stripeSubscriptionId = None,
         status = lit ''active'', plan = None\<rparr>],
     next_id = 2\<rparr>) \<and>
   cancelSubscription sample_db (lit ''cus_1'') =
   (Inr (),
    \<lparr>users = [ada],
     subscriptions =
       [\<lparr>s_id = 1, userId = 0, stripeCustomerId = lit ''cus_1'',
         stripeSubscriptionId = Some (lit ''sub_1''), status = lit ''canceled'',
         plan = Some (lit ''pro'')\<rparr>],
     next_id = 2\<rparr>)"
proof -
  have "stripeSubscriptionId sub_1 = Some (lit ''sub_1'')" "plan sub_1 = Some (lit ''pro'')"
    by (simp_all add: sub_1_def)
  with sample_existing show ?thesis
    unfolding checkout_request_eval cancel_sample_eval
    by (simp add: sample_db_def sub_1_def)
qed

section \<open>The endpoint /clerk-users-webhook\<close>











































end
